theory Spec2Isabelle
  imports Complex_Main "HOL-Library.Sublist"
begin

section \<open>JavaScript values used by the request handlers\<close>

text \<open>
  The handlers of \<^verbatim>\<open>src/index.js\<close> read loosely typed request parameters and turn
  them into numbers with \<^verbatim>\<open>parseInt\<close> and \<^verbatim>\<open>Number\<close>. A request parameter is an
  optional string (\<open>None\<close> is JavaScript's \<^verbatim>\<open>undefined\<close>). Strings are lists of
  8-bit characters; white space is the ASCII white space. A JavaScript number is
  \<open>NaN\<close>, an infinity or a finite value. What \<^verbatim>\<open>parseInt\<close> and \<^verbatim>\<open>Number\<close> read and what
  a division gives is kept exact (rationals); the addition that allocates an id rounds as
  IEEE doubles do. The sign of zero is left out.
\<close>

datatype jsnum = NaN | Fin rat | Infinity | NegInfinity

definition isNaN :: "jsnum \<Rightarrow> bool" where
  "isNaN n = (n = NaN)"

definition is_ws :: "char \<Rightarrow> bool" where
  "is_ws c = (c \<in> set [CHR '' '', CHR 0x09, CHR 0x0A, CHR 0x0B, CHR 0x0C, CHR 0x0D])"

definition trim_start :: "string \<Rightarrow> string" where
  "trim_start s = dropWhile is_ws s"

definition trim :: "string \<Rightarrow> string" where
  "trim s = rev (dropWhile is_ws (rev (dropWhile is_ws s)))"

text \<open>The value of a character as a digit in some radix (letters count from 10).\<close>

definition digit_of :: "char \<Rightarrow> nat option" where
  "digit_of c =
     (let n = (of_char c :: nat) in
      if 48 \<le> n \<and> n \<le> 57 then Some (n - 48)
      else if 97 \<le> n \<and> n \<le> 122 then Some (n - 87)
      else if 65 \<le> n \<and> n \<le> 90 then Some (n - 55)
      else None)"

definition is_radix_digit :: "nat \<Rightarrow> char \<Rightarrow> bool" where
  "is_radix_digit r c = (case digit_of c of Some d \<Rightarrow> d < r | None \<Rightarrow> False)"

definition digits_value :: "nat \<Rightarrow> string \<Rightarrow> nat" where
  "digits_value r ds =
     foldl (\<lambda>acc c. acc * r + (case digit_of c of Some d \<Rightarrow> d | None \<Rightarrow> 0)) 0 ds"

text \<open>
  \<^verbatim>\<open>parseInt(string)\<close> without a radix: leading white space is skipped, a sign is read,
  a \<^verbatim>\<open>0x\<close> prefix selects radix 16, and the longest prefix of digits is the value; no
  digit at all gives \<open>NaN\<close>, here \<open>None\<close>.
\<close>

definition strip_sign :: "string \<Rightarrow> bool \<times> string" where
  "strip_sign s =
     (case s of
        [] \<Rightarrow> (False, [])
      | c # t \<Rightarrow> if c = CHR ''-'' then (True, t) else if c = CHR ''+'' then (False, t) else (False, s))"

definition strip_hex_prefix :: "string \<Rightarrow> nat \<times> string" where
  "strip_hex_prefix s =
     (case s of
        c0 # c1 # t \<Rightarrow> if c0 = CHR ''0'' \<and> (c1 = CHR ''x'' \<or> c1 = CHR ''X'') then (16, t) else (10, s)
      | _ \<Rightarrow> (10, s))"

definition parseInt_string :: "string \<Rightarrow> int option" where
  "parseInt_string s =
     (let (neg, u) = strip_sign (trim_start s);
          (r, v) = strip_hex_prefix u;
          z = takeWhile (is_radix_digit r) v
      in if z = [] then None
         else Some ((if neg then - 1 else 1) * int (digits_value r z)))"

text \<open>An absent parameter is \<^verbatim>\<open>undefined\<close>, which \<^verbatim>\<open>parseInt\<close> first turns into a string.\<close>

definition parseInt :: "string option \<Rightarrow> int option" where
  "parseInt v = parseInt_string (case v of None \<Rightarrow> ''undefined'' | Some s \<Rightarrow> s)"

text \<open>\<^verbatim>\<open>parseInt(x) || d\<close>: \<open>NaN\<close> and \<open>0\<close> are falsy, every other number is kept.\<close>

definition or_default :: "int option \<Rightarrow> int \<Rightarrow> int" where
  "or_default v d = (case v of None \<Rightarrow> d | Some n \<Rightarrow> if n = 0 then d else n)"

text \<open>
  \<^verbatim>\<open>Number(string)\<close>: the string is trimmed; the empty string is \<open>0\<close>; otherwise it must
  be, as a whole, a signed decimal literal (with optional fraction and exponent),
  \<^verbatim>\<open>Infinity\<close>, or an unsigned binary, octal or hexadecimal integer; anything else is
  \<open>NaN\<close>.
\<close>

definition is_digit :: "char \<Rightarrow> bool" where
  "is_digit c = is_radix_digit 10 c"

definition pow10 :: "int \<Rightarrow> rat" where
  "pow10 e = (if 0 \<le> e then 10 ^ nat e else 1 / 10 ^ nat (- e))"

definition exponent_part :: "string \<Rightarrow> int option" where
  "exponent_part s =
     (case s of
        [] \<Rightarrow> Some 0
      | c # t \<Rightarrow>
          if c = CHR ''e'' \<or> c = CHR ''E'' then
            (let (neg, ds) = strip_sign t
             in if ds \<noteq> [] \<and> list_all is_digit ds
                then Some ((if neg then - 1 else 1) * int (digits_value 10 ds))
                else None)
          else None)"

definition unsigned_decimal :: "string \<Rightarrow> rat option" where
  "unsigned_decimal s =
     (let ip = takeWhile is_digit s;
          r1 = dropWhile is_digit s;
          (fp, r2) = (case r1 of
                        [] \<Rightarrow> ([], [])
                      | c # t \<Rightarrow> if c = CHR ''.''
                                 then (takeWhile is_digit t, dropWhile is_digit t)
                                 else ([], r1))
      in if ip = [] \<and> fp = [] then None
         else (case exponent_part r2 of
                 None \<Rightarrow> None
               | Some e \<Rightarrow> Some (of_nat (digits_value 10 (ip @ fp)) * pow10 (e - int (length fp)))))"

definition str_decimal :: "string \<Rightarrow> jsnum" where
  "str_decimal s =
     (let (neg, u) = strip_sign s
      in if u = ''Infinity'' then (if neg then NegInfinity else Infinity)
         else (case unsigned_decimal u of
                 None \<Rightarrow> NaN
               | Some v \<Rightarrow> Fin (if neg then - v else v)))"

definition non_decimal :: "string \<Rightarrow> jsnum option" where
  "non_decimal s =
     (case s of
        c0 # c1 # ds \<Rightarrow>
          (let r = (if c1 = CHR ''x'' \<or> c1 = CHR ''X'' then 16
                    else if c1 = CHR ''o'' \<or> c1 = CHR ''O'' then 8
                    else if c1 = CHR ''b'' \<or> c1 = CHR ''B'' then 2 else (0::nat))
           in if c0 = CHR ''0'' \<and> r \<noteq> 0 \<and> ds \<noteq> [] \<and> list_all (is_radix_digit r) ds
              then Some (Fin (of_nat (digits_value r ds))) else None)
      | _ \<Rightarrow> None)"

definition Number :: "string \<Rightarrow> jsnum" where
  "Number s =
     (let t = trim s
      in if t = [] then Fin 0
         else (case non_decimal t of Some v \<Rightarrow> v | None \<Rightarrow> str_decimal t))"

text \<open>\<^verbatim>\<open>String(n)\<close> of an integer: its decimal digits, with a minus sign when negative.\<close>

definition digit_char :: "nat \<Rightarrow> char" where
  "digit_char d = char_of (48 + d)"

fun nat_digits :: "nat \<Rightarrow> string" where
  "nat_digits n = (if n < 10 then [digit_char n] else nat_digits (n div 10) @ [digit_char (n mod 10)])"

declare nat_digits.simps [simp del]

definition js_to_string :: "int \<Rightarrow> string" where
  "js_to_string i = (if i < 0 then CHR ''-'' # nat_digits (nat (- i)) else nat_digits (nat i))"

text \<open>
  \<^verbatim>\<open>a + b\<close> on numbers that are integers. A number is an IEEE double, with 53
  significant bits: the exact sum is kept when its magnitude is below \<open>2 ^ 53\<close>, and
  otherwise rounded to the nearest integer with 53 significant bits, a tie going to the
  one whose last significant bit is zero. (Adding one to an integer that is a double
  never overflows to an infinity.)
\<close>

function bit_length :: "int \<Rightarrow> nat" where
  "bit_length n = (if n \<le> 0 then 0 else Suc (bit_length (n div 2)))"
  by pat_completeness auto
termination
  by (relation "measure nat") auto

declare bit_length.simps [simp del]

definition round_double :: "int \<Rightarrow> int" where
  "round_double m =
     (if \<bar>m\<bar> < 2 ^ 53 then m
      else (let a = \<bar>m\<bar>;
                e = bit_length a - 53;
                q = a div 2 ^ e;
                r = a mod 2 ^ e;
                h = 2 ^ (e - 1);
                q' = (if h < r \<or> (r = h \<and> odd q) then q + 1 else q)
            in sgn m * (q' * 2 ^ e)))"

definition js_add :: "int \<Rightarrow> int \<Rightarrow> int" where
  "js_add a b = round_double (a + b)"

text \<open>\<^verbatim>\<open>s.split(',')\<close>: the pieces between the separators; the empty string has one piece.\<close>

fun split_on :: "char \<Rightarrow> string \<Rightarrow> string list" where
  "split_on c [] = [[]]"
| "split_on c (x # xs) =
     (if x = c then [] # split_on c xs
      else (case split_on c xs of [] \<Rightarrow> [[x]] | t # ts \<Rightarrow> (x # t) # ts))"

text \<open>\<^verbatim>\<open>a / b\<close> and \<^verbatim>\<open>Math.ceil\<close> on numbers; a division by zero is not an error in JavaScript.\<close>

fun js_div :: "jsnum \<Rightarrow> jsnum \<Rightarrow> jsnum" where
  "js_div (Fin a) (Fin b) =
     (if b = 0 then (if a = 0 then NaN else if 0 < a then Infinity else NegInfinity)
      else Fin (a / b))"
| "js_div (Fin a) Infinity = Fin 0"
| "js_div (Fin a) NegInfinity = Fin 0"
| "js_div Infinity (Fin b) = (if 0 \<le> b then Infinity else NegInfinity)"
| "js_div NegInfinity (Fin b) = (if 0 \<le> b then NegInfinity else Infinity)"
| "js_div _ _ = NaN"

fun Math_ceil :: "jsnum \<Rightarrow> jsnum" where
  "Math_ceil (Fin a) = Fin (of_int \<lceil>a\<rceil>)"
| "Math_ceil n = n"

section \<open>The catalog records\<close>

text \<open>
  Modelled from the spec: the schema (\<^verbatim>\<open>schema/pokemon.js\<close>) that \<^verbatim>\<open>index.js\<close> imports
  is not among the sources. The record type follows the specification's data model: a
  numeric \<open>id\<close>, a name in four languages, a sequence of type names, six numeric base
  statistics and an image URL. Ids and statistics are integers.
\<close>

record names =
  english :: string
  french :: string
  japanese :: string
  chinese :: string

record stats =
  HP :: int
  Attack :: int
  Defense :: int
  SpecialAttack :: int
  SpecialDefense :: int
  Speed :: int

record pokemon =
  p_id :: int
  p_name :: names
  p_type :: "string list"
  p_base :: stats
  p_image :: string

section \<open>The record store\<close>

text \<open>
  The store is the external collaborator behind the \<^verbatim>\<open>Pokemon\<close> model object. It is
  modelled in memory: the documents in their natural (insertion) order, and the store's
  pattern engine for the pattern syntax that this development does not interpret.
\<close>

type_synonym engine = "string \<Rightarrow> (string \<Rightarrow> bool) option"

record store =
  docs :: "pokemon list"
  other_patterns :: engine

subsection \<open>Query documents\<close>

text \<open>
  The query documents that the handlers build: a list of conditions on field paths
  (all must hold), or an \<^verbatim>\<open>$or\<close> of such lists.
\<close>

datatype operand =
    RegexI string
  | InStrings "string list"
  | InNumbers "jsnum list"
  | Bounds "jsnum option" "jsnum option"
  | Value string

type_synonym conditions = "(string \<times> operand) list"

datatype qfilter = Conditions conditions | Or_of "conditions list"

datatype fieldval = StrV string | NumV int | ArrV "string list"

definition field_of :: "pokemon \<Rightarrow> string \<Rightarrow> fieldval option" where
  "field_of p path =
     (if path = ''id'' then Some (NumV (p_id p))
      else if path = ''name.english'' then Some (StrV (english (p_name p)))
      else if path = ''name.french'' then Some (StrV (french (p_name p)))
      else if path = ''name.japanese'' then Some (StrV (japanese (p_name p)))
      else if path = ''name.chinese'' then Some (StrV (chinese (p_name p)))
      else if path = ''type'' then Some (ArrV (p_type p))
      else if path = ''base.HP'' then Some (NumV (HP (p_base p)))
      else if path = ''base.Attack'' then Some (NumV (Attack (p_base p)))
      else if path = ''base.Defense'' then Some (NumV (Defense (p_base p)))
      else if path = ''base.SpecialAttack'' then Some (NumV (SpecialAttack (p_base p)))
      else if path = ''base.SpecialDefense'' then Some (NumV (SpecialDefense (p_base p)))
      else if path = ''base.Speed'' then Some (NumV (Speed (p_base p)))
      else if path = ''image'' then Some (StrV (p_image p))
      else None)"

subsection \<open>Patterns\<close>

text \<open>
  A \<^verbatim>\<open>$regex\<close> condition with option \<^verbatim>\<open>i\<close> searches the field for the pattern, ignoring
  the case of ASCII letters. The fragment interpreted here is a sequence of ordinary
  characters and dots, a dot standing for any character but a line feed. A pattern
  with any other metacharacter is left to the store's engine, which returns its matcher
  or rejects the pattern.
\<close>

definition lower :: "char \<Rightarrow> char" where
  "lower c = (let n = (of_char c :: nat) in if 65 \<le> n \<and> n \<le> 90 then char_of (n + 32) else c)"

definition is_meta :: "char \<Rightarrow> bool" where
  "is_meta c = (c \<in> set (CHR 0x5C # ''^$.|?*+()[]{}''))"

definition rx_char :: "char \<Rightarrow> char \<Rightarrow> bool" where
  "rx_char p c = (if p = CHR ''.'' then c \<noteq> CHR 0x0A else lower p = lower c)"

fun match_here :: "string \<Rightarrow> string \<Rightarrow> bool" where
  "match_here [] s = True"
| "match_here (p # ps) [] = False"
| "match_here (p # ps) (c # cs) = (rx_char p c \<and> match_here ps cs)"

fun rx_search :: "string \<Rightarrow> string \<Rightarrow> bool" where
  "rx_search p [] = match_here p []"
| "rx_search p (c # cs) = (match_here p (c # cs) \<or> rx_search p cs)"

definition in_fragment :: "string \<Rightarrow> bool" where
  "in_fragment p = list_all (\<lambda>c. c = CHR ''.'' \<or> \<not> is_meta c) p"

definition regex_i :: "engine \<Rightarrow> string \<Rightarrow> (string \<Rightarrow> bool) option" where
  "regex_i other p = (if in_fragment p then Some (rx_search p) else other p)"

subsection \<open>Evaluating a query\<close>

fun num_ge :: "int \<Rightarrow> jsnum \<Rightarrow> bool" where
  "num_ge n (Fin q) = (q \<le> of_int n)"
| "num_ge n NegInfinity = True"
| "num_ge n _ = False"

fun num_le :: "int \<Rightarrow> jsnum \<Rightarrow> bool" where
  "num_le n (Fin q) = (of_int n \<le> q)"
| "num_le n Infinity = True"
| "num_le n _ = False"

fun operand_holds :: "engine \<Rightarrow> fieldval \<Rightarrow> operand \<Rightarrow> bool" where
  "operand_holds eng (StrV s) (RegexI p) = (case regex_i eng p of Some m \<Rightarrow> m s | None \<Rightarrow> False)"
| "operand_holds eng (ArrV xs) (InStrings ts) = (\<exists>x \<in> set xs. x \<in> set ts)"
| "operand_holds eng (NumV n) (InNumbers ns) = (Fin (of_int n) \<in> set ns)"
| "operand_holds eng (NumV n) (Bounds lo hi) =
     ((case lo of None \<Rightarrow> True | Some a \<Rightarrow> num_ge n a) \<and>
      (case hi of None \<Rightarrow> True | Some b \<Rightarrow> num_le n b))"
| "operand_holds eng (NumV n) (Value s) = (s \<noteq> [] \<and> Number s = Fin (of_int n))"
| "operand_holds eng _ _ = False"

definition condition_holds :: "engine \<Rightarrow> pokemon \<Rightarrow> string \<times> operand \<Rightarrow> bool" where
  "condition_holds eng p c =
     (case field_of p (fst c) of None \<Rightarrow> False | Some v \<Rightarrow> operand_holds eng v (snd c))"

definition matches :: "engine \<Rightarrow> qfilter \<Rightarrow> pokemon \<Rightarrow> bool" where
  "matches eng f p =
     (case f of
        Conditions cs \<Rightarrow> list_all (condition_holds eng p) cs
      | Or_of alts \<Rightarrow> list_ex (\<lambda>cs. list_all (condition_holds eng p) cs) alts)"

text \<open>
  Before a query runs, its values are cast to the type of their path: a number that is
  \<open>NaN\<close> does not cast, and a pattern that the engine rejects does not compile. Either
  makes the whole operation fail with a message.
\<close>

fun operand_error :: "engine \<Rightarrow> operand \<Rightarrow> string option" where
  "operand_error eng (RegexI p) =
     (case regex_i eng p of None \<Rightarrow> Some ''Regular expression is invalid'' | Some m \<Rightarrow> None)"
| "operand_error eng (InStrings ts) = None"
| "operand_error eng (InNumbers ns) =
     (if NaN \<in> set ns then Some ''Cast to Number failed'' else None)"
| "operand_error eng (Bounds lo hi) =
     (if lo = Some NaN \<or> hi = Some NaN then Some ''Cast to Number failed'' else None)"
| "operand_error eng (Value s) =
     (if s \<noteq> [] \<and> Number s = NaN then Some ''Cast to Number failed'' else None)"

fun first_error :: "engine \<Rightarrow> conditions \<Rightarrow> string option" where
  "first_error eng [] = None"
| "first_error eng (c # cs) =
     (case operand_error eng (snd c) of Some e \<Rightarrow> Some e | None \<Rightarrow> first_error eng cs)"

definition query_error :: "engine \<Rightarrow> qfilter \<Rightarrow> string option" where
  "query_error eng f =
     (case f of Conditions cs \<Rightarrow> first_error eng cs | Or_of alts \<Rightarrow> first_error eng (concat alts))"

subsection \<open>The operations of the model object\<close>

definition Pokemon_find :: "store \<Rightarrow> qfilter \<Rightarrow> string + pokemon list" where
  "Pokemon_find st f =
     (case query_error (other_patterns st) f of
        Some e \<Rightarrow> Inl e
      | None \<Rightarrow> Inr (filter (matches (other_patterns st) f) (docs st)))"

definition Pokemon_countDocuments :: "store \<Rightarrow> qfilter \<Rightarrow> string + nat" where
  "Pokemon_countDocuments st f =
     (case Pokemon_find st f of Inl e \<Rightarrow> Inl e | Inr ps \<Rightarrow> Inr (length ps))"

text \<open>\<^verbatim>\<open>.sort({ id: 1 })\<close> and \<^verbatim>\<open>.sort({ id: -1 })\<close>.\<close>

definition sort_id_asc :: "pokemon list \<Rightarrow> pokemon list" where
  "sort_id_asc ps = sort_key p_id ps"

definition sort_id_desc :: "pokemon list \<Rightarrow> pokemon list" where
  "sort_id_desc ps = sort_key (\<lambda>p. - p_id p) ps"

definition Pokemon_find_sorted :: "store \<Rightarrow> qfilter \<Rightarrow> string + pokemon list" where
  "Pokemon_find_sorted st f =
     (case Pokemon_find st f of Inl e \<Rightarrow> Inl e | Inr ps \<Rightarrow> Inr (sort_id_asc ps))"

text \<open>
  \<^verbatim>\<open>find(f).sort({ id: 1 }).skip(skip).limit(limit)\<close>: the store rejects a negative skip;
  a negative limit is read as its absolute value and a limit of zero as no limit.
\<close>

definition Pokemon_find_page :: "store \<Rightarrow> qfilter \<Rightarrow> int \<Rightarrow> int \<Rightarrow> string + pokemon list" where
  "Pokemon_find_page st f skip limit =
     (case Pokemon_find_sorted st f of
        Inl e \<Rightarrow> Inl e
      | Inr ps \<Rightarrow>
          if skip < 0 then Inl ''Skip value must be non-negative''
          else Inr (let rest = drop (nat skip) ps
                    in if limit = 0 then rest else take (nat \<bar>limit\<bar>) rest))"

text \<open>\<^verbatim>\<open>findOne\<close> gives the first matching document, or \<^verbatim>\<open>null\<close>.\<close>

definition Pokemon_findOne :: "store \<Rightarrow> qfilter \<Rightarrow> string + pokemon option" where
  "Pokemon_findOne st f =
     (case Pokemon_find st f of
        Inl e \<Rightarrow> Inl e
      | Inr ps \<Rightarrow> Inr (case ps of [] \<Rightarrow> None | p # _ \<Rightarrow> Some p))"

definition Pokemon_findOne_sort_desc :: "store \<Rightarrow> qfilter \<Rightarrow> string + pokemon option" where
  "Pokemon_findOne_sort_desc st f =
     (case Pokemon_find st f of
        Inl e \<Rightarrow> Inl e
      | Inr ps \<Rightarrow> Inr (case sort_id_desc ps of [] \<Rightarrow> None | p # _ \<Rightarrow> Some p))"

text \<open>\<^verbatim>\<open>findOneAndDelete\<close> removes the first matching document and gives it back.\<close>

definition Pokemon_findOneAndDelete :: "store \<Rightarrow> qfilter \<Rightarrow> string + (pokemon option \<times> store)" where
  "Pokemon_findOneAndDelete st f =
     (case Pokemon_findOne st f of
        Inl e \<Rightarrow> Inl e
      | Inr None \<Rightarrow> Inr (None, st)
      | Inr (Some p) \<Rightarrow> Inr (Some p, st\<lparr>docs := remove1 p (docs st)\<rparr>))"

section \<open>The request handlers\<close>

text \<open>
  \<^verbatim>\<open>req.query\<close> maps a parameter name to its value, a string, or to nothing. A path
  parameter (\<^verbatim>\<open>req.params.id\<close>) is a string. A response is a status code and a JSON body;
  \<^verbatim>\<open>res.json\<close> without a status answers 200.
\<close>

type_synonym query = "string \<Rightarrow> string option"

record envelope =
  e_pokemons :: "pokemon list"
  e_page :: int
  e_limit :: int
  e_total :: nat
  e_totalPages :: jsnum

datatype body =
    Error string
  | Records "pokemon list"
  | Record pokemon
  | Page envelope
  | Projection "(int \<times> string \<times> string list \<times> string) list"
  | Deleted string pokemon

record response =
  status :: nat
  body :: body

definition json :: "body \<Rightarrow> response" where
  "json b = \<lparr>status = 200, body = b\<rparr>"

definition status_json :: "nat \<Rightarrow> body \<Rightarrow> response" where
  "status_json c b = \<lparr>status = c, body = b\<rparr>"

definition quoted :: "string \<Rightarrow> string" where
  "quoted s = [CHR 0x22] @ s @ [CHR 0x22]"

definition param_required :: "string \<Rightarrow> string" where
  "param_required k = ''Le param'' @ [CHR 0xC3, CHR 0xA8] @ ''tre '' @ quoted k @ '' est requis''"

definition not_found :: string where
  "not_found = ''Pokemon non trouv'' @ [CHR 0xC3, CHR 0xA9]"

definition deleted_message :: string where
  "deleted_message = ''Pokemon supprim'' @ [CHR 0xC3, CHR 0xA9]"

subsection \<open>\<^verbatim>\<open>GET /pokemon\<close> and \<^verbatim>\<open>GET /pokemon/filter\<close>\<close>

text \<open>
  The first three lines of both handlers: \<^verbatim>\<open>page\<close>, \<^verbatim>\<open>limit\<close> and \<^verbatim>\<open>skip\<close>.
\<close>

definition pagination :: "query \<Rightarrow> int \<times> int \<times> int" where
  "pagination q =
     (let page = or_default (parseInt (q ''page'')) 1;
          limit = or_default (parseInt (q ''limit'')) 20;
          skip = (page - 1) * limit
      in (page, limit, skip))"

text \<open>
  Both handlers are written against the two store operations they await, the count and
  the sorted, skipped and limited find, so that what is proved of them holds whatever
  the store answers.
\<close>

definition respond_page ::
  "(qfilter \<Rightarrow> string + nat) \<Rightarrow> (qfilter \<Rightarrow> int \<Rightarrow> int \<Rightarrow> string + pokemon list) \<Rightarrow>
   qfilter \<Rightarrow> int \<Rightarrow> int \<Rightarrow> int \<Rightarrow> response" where
  "respond_page countDocuments find_page f page limit skip =
     (case countDocuments f of
        Inl e \<Rightarrow> status_json 500 (Error e)
      | Inr total_docs \<Rightarrow>
          (case find_page f skip limit of
             Inl e \<Rightarrow> status_json 500 (Error e)
           | Inr pokemons \<Rightarrow>
               json (Page \<lparr>e_pokemons = pokemons, e_page = page, e_limit = limit, e_total = total_docs,
                          e_totalPages = Math_ceil (js_div (Fin (of_nat total_docs)) (Fin (of_int limit)))\<rparr>)))"

definition get_pokemon ::
  "(qfilter \<Rightarrow> string + nat) \<Rightarrow> (qfilter \<Rightarrow> int \<Rightarrow> int \<Rightarrow> string + pokemon list) \<Rightarrow>
   query \<Rightarrow> response" where
  "get_pokemon countDocuments find_page q =
     (let (page, limit, skip) = pagination q
      in respond_page countDocuments find_page (Conditions []) page limit skip)"

definition statFields :: "string list" where
  "statFields = [''HP'', ''Attack'', ''Defense'', ''SpecialAttack'', ''SpecialDefense'', ''Speed'']"

definition stat_condition :: "query \<Rightarrow> string \<Rightarrow> conditions" where
  "stat_condition q stat =
     (let minVal = q (''min'' @ stat);
          maxVal = q (''max'' @ stat)
      in if minVal \<noteq> None \<or> maxVal \<noteq> None
         then [(''base.'' @ stat, Bounds (map_option Number minVal) (map_option Number maxVal))]
         else [])"

definition build_filter :: "query \<Rightarrow> qfilter" where
  "build_filter q =
     Conditions
       ((case q ''types'' of
           None \<Rightarrow> []
         | Some ts \<Rightarrow> if ts = [] then [] else [(''type'', InStrings (split_on (CHR '','') ts))])
        @ concat (map (stat_condition q) statFields))"

definition get_pokemon_filter ::
  "(qfilter \<Rightarrow> string + nat) \<Rightarrow> (qfilter \<Rightarrow> int \<Rightarrow> int \<Rightarrow> string + pokemon list) \<Rightarrow>
   query \<Rightarrow> response" where
  "get_pokemon_filter countDocuments find_page q =
     (let (page, limit, skip) = pagination q
      in respond_page countDocuments find_page (build_filter q) page limit skip)"

subsection \<open>\<^verbatim>\<open>GET /pokemon/search\<close>\<close>

definition search_filter :: "string \<Rightarrow> qfilter" where
  "search_filter name =
     Or_of [[(''name.english'', RegexI name)],
            [(''name.french'', RegexI name)],
            [(''name.japanese'', RegexI name)],
            [(''name.chinese'', RegexI name)]]"

definition get_pokemon_search :: "store \<Rightarrow> query \<Rightarrow> response" where
  "get_pokemon_search st q =
     (case q ''name'' of
        None \<Rightarrow> status_json 400 (Error (param_required ''name''))
      | Some name \<Rightarrow>
          if name = [] then status_json 400 (Error (param_required ''name''))
          else (case Pokemon_find st (search_filter name) of
                  Inl e \<Rightarrow> status_json 500 (Error e)
                | Inr ps \<Rightarrow> json (Records ps)))"

subsection \<open>\<^verbatim>\<open>GET /pokemon/by-ids\<close>\<close>

definition idList_of :: "string \<Rightarrow> jsnum list" where
  "idList_of ids = filter (\<lambda>n. \<not> isNaN n) (map Number (split_on (CHR '','') ids))"

definition get_pokemon_by_ids :: "store \<Rightarrow> query \<Rightarrow> response" where
  "get_pokemon_by_ids st q =
     (case q ''ids'' of
        None \<Rightarrow> status_json 400 (Error (param_required ''ids''))
      | Some ids \<Rightarrow>
          if ids = [] then status_json 400 (Error (param_required ''ids''))
          else (case Pokemon_find_sorted st (Conditions [(''id'', InNumbers (idList_of ids))]) of
                  Inl e \<Rightarrow> status_json 500 (Error e)
                | Inr ps \<Rightarrow> json (Records ps)))"

subsection \<open>\<^verbatim>\<open>GET /pokemon/list-all\<close>\<close>

definition select_fields :: "pokemon \<Rightarrow> int \<times> string \<times> string list \<times> string" where
  "select_fields p = (p_id p, english (p_name p), p_type p, p_image p)"

definition get_pokemon_list_all :: "store \<Rightarrow> response" where
  "get_pokemon_list_all st =
     (case Pokemon_find_sorted st (Conditions []) of
        Inl e \<Rightarrow> status_json 500 (Error e)
      | Inr ps \<Rightarrow> json (Projection (map select_fields ps)))"

subsection \<open>\<^verbatim>\<open>GET /pokemon/:id\<close>\<close>

definition get_pokemon_by_id :: "store \<Rightarrow> string \<Rightarrow> response" where
  "get_pokemon_by_id st id_param =
     (case Pokemon_findOne st (Conditions [(''id'', Value id_param)]) of
        Inl e \<Rightarrow> status_json 500 (Error e)
      | Inr None \<Rightarrow> status_json 404 (Error not_found)
      | Inr (Some poke) \<Rightarrow> json (Record poke))"

subsection \<open>\<^verbatim>\<open>POST /pokemon\<close>\<close>

record payload =
  b_name :: "names option"
  b_type :: "string list option"
  b_base :: "stats option"
  b_image :: "string option"

record draft =
  d_id :: int
  d_name :: "names option"
  d_type :: "string list option"
  d_base :: "stats option"
  d_image :: string

text \<open>
  Modelled from the spec: the schema (\<^verbatim>\<open>schema/pokemon.js\<close>) that validates a document
  when it is saved is not among the sources. Following the specification's contract for
  creation, a document is accepted when its name, type and base parts are present; that
  they are well typed is in the types of the model.
\<close>

definition validate :: "draft \<Rightarrow> string + pokemon" where
  "validate d =
     (case (d_name d, d_type d, d_base d) of
        (Some n, Some t, Some b) \<Rightarrow>
          Inr \<lparr>p_id = d_id d, p_name = n, p_type = t, p_base = b, p_image = d_image d\<rparr>
      | _ \<Rightarrow> Inl ''Pokemon validation failed'')"

definition save :: "store \<Rightarrow> draft \<Rightarrow> string + (pokemon \<times> store)" where
  "save st d =
     (case validate d of
        Inl e \<Rightarrow> Inl e
      | Inr p \<Rightarrow> Inr (p, st\<lparr>docs := docs st @ [p]\<rparr>))"

definition image_url :: "int \<Rightarrow> string" where
  "image_url newId = ''http://localhost:3000/assets/pokemons/'' @ js_to_string newId @ ''.png''"

definition new_id :: "pokemon option \<Rightarrow> int" where
  "new_id lastPokemon = (case lastPokemon of Some l \<Rightarrow> js_add (p_id l) 1 | None \<Rightarrow> 1)"

definition post_pokemon :: "store \<Rightarrow> payload \<Rightarrow> response \<times> store" where
  "post_pokemon st b =
     (case Pokemon_findOne_sort_desc st (Conditions []) of
        Inl e \<Rightarrow> (status_json 400 (Error e), st)
      | Inr lastPokemon \<Rightarrow>
          (let newId = new_id lastPokemon;
               newPokemon = \<lparr>d_id = newId, d_name = b_name b, d_type = b_type b, d_base = b_base b,
                             d_image = (case b_image b of
                                          None \<Rightarrow> image_url newId
                                        | Some i \<Rightarrow> if i = [] then image_url newId else i)\<rparr>
           in (case save st newPokemon of
                 Inl e \<Rightarrow> (status_json 400 (Error e), st)
               | Inr (saved, st') \<Rightarrow> (status_json 201 (Record saved), st'))))"

subsection \<open>\<^verbatim>\<open>DELETE /pokemon/:id\<close>\<close>

definition delete_pokemon :: "store \<Rightarrow> string \<Rightarrow> response \<times> store" where
  "delete_pokemon st id_param =
     (case Pokemon_findOneAndDelete st (Conditions [(''id'', Value id_param)]) of
        Inl e \<Rightarrow> (status_json 500 (Error e), st)
      | Inr (None, st') \<Rightarrow> (status_json 404 (Error not_found), st')
      | Inr (Some deleted, st') \<Rightarrow> (json (Deleted deleted_message deleted), st'))"

section \<open>What the specification says of a search\<close>

text \<open>
  The specification's search correctness: a record matches when the term is a
  case-insensitive substring of at least one of its four name fields.
\<close>

definition ci_substring :: "string \<Rightarrow> string \<Rightarrow> bool" where
  "ci_substring t s = sublist (map lower t) (map lower s)"

definition name_contains :: "string \<Rightarrow> pokemon \<Rightarrow> bool" where
  "name_contains t p =
     (ci_substring t (english (p_name p)) \<or> ci_substring t (french (p_name p)) \<or>
      ci_substring t (japanese (p_name p)) \<or> ci_substring t (chinese (p_name p)))"

section \<open>Sample requests and stores\<close>

text \<open>A query string given by its pairs, and an engine that knows no further syntax.\<close>

definition query_of :: "(string \<times> string) list \<Rightarrow> query" where
  "query_of kvs = map_of kvs"

definition no_other_patterns :: engine where
  "no_other_patterns p = None"

definition sample_stats :: stats where
  "sample_stats = \<lparr>HP = 45, Attack = 49, Defense = 49, SpecialAttack = 65, SpecialDefense = 65, Speed = 45\<rparr>"

definition sample :: "int \<Rightarrow> string \<Rightarrow> string \<Rightarrow> pokemon" where
  "sample i en fr =
     \<lparr>p_id = i,
      p_name = \<lparr>english = en, french = fr, japanese = ''kana'', chinese = ''hanzi''\<rparr>,
      p_type = [''Grass'', ''Poison''], p_base = sample_stats, p_image = ''/assets/pokemons/x.png''\<rparr>"

definition store_of :: "pokemon list \<Rightarrow> store" where
  "store_of ps = \<lparr>docs = ps, other_patterns = no_other_patterns\<rparr>"

text \<open>Four documents whose natural order is not the order of their ids.\<close>

definition sample_store :: store where
  "sample_store =
     store_of [sample 3 ''Venusaur'' ''Florizarre'', sample 1 ''Bulbasaur'' ''Bulbizarre'',
               sample 0 ''Missingno'' ''Missingno'', sample 2 ''Ivysaur'' ''Herbizarre'']"

text \<open>A store whose largest id is \<open>2 ^ 53\<close>, the first integer whose successor is no double.\<close>

definition big_store :: store where
  "big_store = store_of [sample 1 ''Bulbasaur'' ''Bulbizarre'', sample 9007199254740992 ''Mewtwo'' ''Mewtwo'']"

definition sample_payload :: "string option \<Rightarrow> payload" where
  "sample_payload img =
     \<lparr>b_name = Some \<lparr>english = ''Mew'', french = ''Mew'', japanese = ''myuu'', chinese = ''menghuan''\<rparr>,
      b_type = Some [''Psychic''], b_base = Some sample_stats, b_image = img\<rparr>"

text \<open>A creation payload that carries the three parts the schema requires.\<close>

definition complete_payload :: "payload \<Rightarrow> bool" where
  "complete_payload b = (b_name b \<noteq> None \<and> b_type b \<noteq> None \<and> b_base b \<noteq> None)"

section \<open>Numbers and their decimal strings\<close>

lemma digit_of_digit_char: "d < 10 \<Longrightarrow> digit_of (digit_char d) = Some d"
  by (simp add: digit_of_def digit_char_def Let_def)

lemma is_digit_digit_char: "d < 10 \<Longrightarrow> is_digit (digit_char d)"
  by (simp add: is_digit_def is_radix_digit_def digit_of_digit_char)

lemma is_digit_cases:
  "is_digit c \<Longrightarrow> \<not> is_ws c \<and> c \<noteq> CHR ''-'' \<and> c \<noteq> CHR ''+'' \<and> c \<noteq> CHR ''x'' \<and> c \<noteq> CHR ''X''
     \<and> c \<noteq> CHR ''o'' \<and> c \<noteq> CHR ''O'' \<and> c \<noteq> CHR ''b'' \<and> c \<noteq> CHR ''B'' \<and> c \<noteq> CHR ''I''"
  by (auto simp add: is_digit_def is_radix_digit_def digit_of_def is_ws_def Let_def split: if_splits)

lemma nat_digits_all: "list_all is_digit (nat_digits n)"
  by (induction n rule: nat_digits.induct) (subst nat_digits.simps, simp add: is_digit_digit_char)

lemma nat_digits_nonempty: "nat_digits n \<noteq> []"
  by (subst nat_digits.simps) simp

lemma digits_value_snoc:
  "digits_value r (ds @ [c]) = digits_value r ds * r + (case digit_of c of Some d \<Rightarrow> d | None \<Rightarrow> 0)"
  by (simp add: digits_value_def)

lemma digits_value_single: "digits_value r [c] = (case digit_of c of Some d \<Rightarrow> d | None \<Rightarrow> 0)"
  by (simp add: digits_value_def)

lemma digits_value_nat_digits: "digits_value 10 (nat_digits n) = n"
proof (induction n rule: nat_digits.induct)
  case (1 n)
  show ?case
  proof (cases "n < 10")
    case True
    then show ?thesis
      by (subst nat_digits.simps) (simp add: digits_value_single digit_of_digit_char)
  next
    case False
    with 1 have "digits_value 10 (nat_digits (n div 10)) = n div 10" by simp
    with False show ?thesis
      by (subst nat_digits.simps) (simp add: digits_value_snoc digit_of_digit_char)
  qed
qed

lemma takeWhile_all: "list_all P xs \<Longrightarrow> takeWhile P xs = xs"
  by (induction xs) auto

lemma dropWhile_all: "list_all P xs \<Longrightarrow> dropWhile P xs = []"
  by (induction xs) auto

lemma digits_no_ws: "list_all is_digit ds \<Longrightarrow> list_all (\<lambda>c. \<not> is_ws c) ds"
  by (induction ds) (auto dest: is_digit_cases)

lemma dropWhile_none: "list_all (\<lambda>c. \<not> P c) xs \<Longrightarrow> dropWhile P xs = xs"
  by (cases xs) auto

lemma trim_digits: "list_all is_digit ds \<Longrightarrow> trim ds = ds"
proof -
  assume "list_all is_digit ds"
  then have a: "list_all (\<lambda>c. \<not> is_ws c) ds" by (rule digits_no_ws)
  then have b: "list_all (\<lambda>c. \<not> is_ws c) (rev ds)" by (simp add: list_all_iff)
  show ?thesis by (simp add: trim_def dropWhile_none [OF a] dropWhile_none [OF b])
qed

lemma trim_minus_digits: "list_all is_digit ds \<Longrightarrow> trim (CHR ''-'' # ds) = CHR ''-'' # ds"
proof -
  assume "list_all is_digit ds"
  then have "list_all (\<lambda>c. \<not> is_ws c) ds" by (rule digits_no_ws)
  then have a: "list_all (\<lambda>c. \<not> is_ws c) (CHR ''-'' # ds)" by (simp add: is_ws_def)
  then have b: "list_all (\<lambda>c. \<not> is_ws c) (rev (CHR ''-'' # ds))" by (simp add: list_all_iff)
  show ?thesis unfolding trim_def by (simp only: dropWhile_none [OF a] dropWhile_none [OF b] rev_rev_ident)
qed

lemma non_decimal_digits:
  assumes "list_all is_digit ds"
  shows "non_decimal ds = None"
proof (cases ds)
  case Nil
  then show ?thesis by (simp add: non_decimal_def)
next
  case (Cons c0 t)
  show ?thesis
  proof (cases t)
    case Nil
    with Cons show ?thesis by (simp add: non_decimal_def)
  next
    case (Cons c1 u)
    with assms \<open>ds = c0 # t\<close> have "is_digit c1" by simp
    from is_digit_cases [OF this] Cons \<open>ds = c0 # t\<close> show ?thesis
      by (simp add: non_decimal_def)
  qed
qed

lemma non_decimal_minus: "non_decimal (CHR ''-'' # ds) = None"
  by (simp add: non_decimal_def Let_def split: list.splits)

lemma strip_sign_digits: "list_all is_digit ds \<Longrightarrow> strip_sign ds = (False, ds)"
  by (auto simp add: strip_sign_def split: list.splits dest: is_digit_cases)

lemma digits_not_Infinity: "list_all is_digit ds \<Longrightarrow> ds \<noteq> ''Infinity''"
  by (auto dest: is_digit_cases)

lemma unsigned_decimal_digits:
  "ds \<noteq> [] \<Longrightarrow> list_all is_digit ds \<Longrightarrow> unsigned_decimal ds = Some (of_nat (digits_value 10 ds))"
  by (simp add: unsigned_decimal_def takeWhile_all dropWhile_all exponent_part_def pow10_def)

lemma Number_digits:
  assumes "ds \<noteq> []" "list_all is_digit ds"
  shows "Number ds = Fin (of_nat (digits_value 10 ds))"
  using assms
  by (simp add: Number_def trim_digits non_decimal_digits str_decimal_def strip_sign_digits
      digits_not_Infinity unsigned_decimal_digits)

lemma Number_minus_digits:
  assumes "ds \<noteq> []" "list_all is_digit ds"
  shows "Number (CHR ''-'' # ds) = Fin (- of_nat (digits_value 10 ds))"
  using assms
  by (simp add: Number_def trim_minus_digits non_decimal_minus str_decimal_def strip_sign_def
      digits_not_Infinity unsigned_decimal_digits)

lemma Number_js_to_string: "Number (js_to_string i) = Fin (of_int i)"
proof (cases "i < 0")
  case True
  then have "Number (js_to_string i) = Fin (- of_nat (nat (- i)))"
    by (simp add: js_to_string_def Number_minus_digits nat_digits_nonempty nat_digits_all
        digits_value_nat_digits)
  also have "(- of_nat (nat (- i)) :: rat) = of_int i" using True by simp
  finally show ?thesis .
next
  case False
  then show ?thesis
    by (simp add: js_to_string_def Number_digits nat_digits_nonempty nat_digits_all
        digits_value_nat_digits)
qed

lemma js_to_string_nonempty: "js_to_string i \<noteq> []"
  by (simp add: js_to_string_def nat_digits_nonempty)






section \<open>Pagination\<close>

lemma or_default_nonzero: "or_default v d \<noteq> 0 \<or> d = 0"
  by (simp add: or_default_def split: option.splits)

lemma pagination_fields:
  assumes "pagination q = (pg, lm, sk)"
  shows "pg = or_default (parseInt (q ''page'')) 1"
    and "lm = or_default (parseInt (q ''limit'')) 20"
    and "sk = (pg - 1) * lm"
  using assms by (auto simp add: pagination_def Let_def)

lemma pagination_nonzero:
  assumes "pagination q = (pg, lm, sk)"
  shows "pg \<noteq> 0" and "lm \<noteq> 0"
  using or_default_nonzero [of "parseInt (q ''page'')" 1]
    or_default_nonzero [of "parseInt (q ''limit'')" 20] pagination_fields [OF assms]
  by simp_all

lemma handlers_respond:
  assumes "pagination q = (pg, lm, sk)"
  shows "get_pokemon cnt fnd q = respond_page cnt fnd (Conditions []) pg lm sk"
    and "get_pokemon_filter cnt fnd q = respond_page cnt fnd (build_filter q) pg lm sk"
  using assms by (simp_all add: get_pokemon_def get_pokemon_filter_def)

lemma respond_page_status:
  "status (respond_page cnt fnd f pg lm sk) = 200 \<or> status (respond_page cnt fnd f pg lm sk) = 500"
  by (simp add: respond_page_def status_json_def json_def split: sum.splits)

lemma respond_page_Page:
  assumes "respond_page cnt fnd f pg lm sk = json (Page env)"
  shows "e_page env = pg \<and> e_limit env = lm \<and> cnt f = Inr (e_total env) \<and>
         fnd f sk lm = Inr (e_pokemons env) \<and>
         e_totalPages env = Math_ceil (js_div (Fin (of_nat (e_total env))) (Fin (of_int lm)))"
  using assms
  by (auto simp add: respond_page_def status_json_def json_def split: sum.splits)

lemma ceiling_neg_divisor:
  fixes n :: nat and l :: int
  assumes "l < 0"
  shows "\<lceil>rat_of_nat n / rat_of_int l\<rceil> \<le> 0 \<and> (\<lceil>rat_of_nat n / rat_of_int l\<rceil> = 0 \<longleftrightarrow> int n < - l)"
proof -
  have le: "rat_of_nat n / rat_of_int l \<le> 0"
    using assms by (simp add: divide_nonneg_neg divide_le_0_iff)
  then have c: "\<lceil>rat_of_nat n / rat_of_int l\<rceil> \<le> 0" by (simp add: ceiling_le_iff)
  have "\<lceil>rat_of_nat n / rat_of_int l\<rceil> = 0 \<longleftrightarrow> - 1 < rat_of_nat n / rat_of_int l"
    using le by (auto simp add: ceiling_eq_iff)
  also have "\<dots> \<longleftrightarrow> rat_of_nat n < - rat_of_int l"
    using assms by (simp add: less_divide_eq)
  also have "\<dots> \<longleftrightarrow> int n < - l"
    by (metis of_int_less_iff of_int_minus of_int_of_nat_eq)
  finally show ?thesis using c by simp
qed




text \<open>
  C3, as the code has it. The resolved \<^verbatim>\<open>limit\<close> is never zero, so \<^verbatim>\<open>total / limit\<close>
  never divides by zero and \<^verbatim>\<open>totalPages\<close> is the finite number
  \<open>\<lceil>total / limit\<rceil>\<close>. For a negative \<^verbatim>\<open>limit\<close> that number is at most zero, and it is
  zero exactly when \<open>total < - limit\<close>.
\<close>

theorem totalPages_of_page:
  assumes "r = get_pokemon cnt fnd q \<or> r = get_pokemon_filter cnt fnd q"
    and "r = json (Page env)"
  shows "e_limit env \<noteq> 0 \<and>
    e_totalPages env = Fin (of_int \<lceil>rat_of_nat (e_total env) / rat_of_int (e_limit env)\<rceil>) \<and>
    (e_limit env < 0 \<longrightarrow>
       \<lceil>rat_of_nat (e_total env) / rat_of_int (e_limit env)\<rceil> \<le> 0 \<and>
       (\<lceil>rat_of_nat (e_total env) / rat_of_int (e_limit env)\<rceil> = 0 \<longleftrightarrow> int (e_total env) < - e_limit env))"
proof -
  obtain pg lm sk where p: "pagination q = (pg, lm, sk)"
    by (cases "pagination q") auto
  note nz = pagination_nonzero(2) [OF p]
  from assms handlers_respond [OF p, of cnt fnd]
  obtain f where "respond_page cnt fnd f pg lm sk = json (Page env)"
    by auto
  from respond_page_Page [OF this] have l: "e_limit env = lm"
    and t: "e_totalPages env = Math_ceil (js_div (Fin (of_nat (e_total env))) (Fin (of_int lm)))"
    by blast+
  from nz l t have "e_totalPages env = Fin (of_int \<lceil>rat_of_nat (e_total env) / rat_of_int (e_limit env)\<rceil>)"
    by simp
  with nz l ceiling_neg_divisor [of "e_limit env" "e_total env"] show ?thesis by blast
qed

theorem totalPages_of_page_witness:
  "get_pokemon (Pokemon_countDocuments sample_store) (Pokemon_find_page sample_store)
      (query_of [(''limit'', ''-2'')]) =
    json (Page \<lparr>e_pokemons = [sample 0 ''Missingno'' ''Missingno'', sample 1 ''Bulbasaur'' ''Bulbizarre''],
                e_page = 1, e_limit = - 2, e_total = 4, e_totalPages = Fin (- 2)\<rparr>) \<and>
   \<lceil>rat_of_nat 4 / rat_of_int (- 2)\<rceil> \<le> 0 \<and>
   (\<lceil>rat_of_nat 4 / rat_of_int (- 2)\<rceil> = 0 \<longleftrightarrow> int 4 < - (- 2))"
proof -
  have h: "get_pokemon (Pokemon_countDocuments sample_store) (Pokemon_find_page sample_store)
      (query_of [(''limit'', ''-2'')]) =
    json (Page \<lparr>e_pokemons = [sample 0 ''Missingno'' ''Missingno'', sample 1 ''Bulbasaur'' ''Bulbizarre''],
                e_page = 1, e_limit = - 2, e_total = 4, e_totalPages = Fin (- 2)\<rparr>)"
    by code_simp
  from totalPages_of_page [OF disjI1 [OF refl] h] h show ?thesis by simp
qed

text \<open>
  C3 as stated fails: with four records and \<^verbatim>\<open>limit=-2\<close> the handler answers
  \<^verbatim>\<open>totalPages\<close> \<open>- 2\<close>, not \<open>0\<close>.
\<close>

theorem totalPages_negative_limit:
  "(case body (get_pokemon (Pokemon_countDocuments sample_store) (Pokemon_find_page sample_store)
      (query_of [(''limit'', ''-2'')])) of
      Page env \<Rightarrow> e_limit env = - 2 \<and> e_total env = 4 \<and> e_totalPages env = Fin (- 2) \<and>
        e_totalPages env \<noteq> Fin 0
    | _ \<Rightarrow> False)"
  by code_simp

section \<open>The filter builder\<close>

lemma stat_condition_present:
  assumes "q (''min'' @ stat) \<noteq> None \<or> q (''max'' @ stat) \<noteq> None"
  shows "stat_condition q stat =
    [(''base.'' @ stat, Bounds (map_option Number (q (''min'' @ stat))) (map_option Number (q (''max'' @ stat))))]"
  using assms by (simp add: stat_condition_def Let_def)

lemma build_filter_conditions:
  "\<exists>ty. build_filter q = Conditions (ty @ concat (map (stat_condition q) statFields))"
  by (simp add: build_filter_def)

lemma build_filter_has_bound:
  assumes "stat \<in> set statFields"
    and "q (''min'' @ stat) \<noteq> None \<or> q (''max'' @ stat) \<noteq> None"
  shows "\<exists>cs. build_filter q = Conditions cs \<and>
    (''base.'' @ stat, Bounds (map_option Number (q (''min'' @ stat))) (map_option Number (q (''max'' @ stat))))
      \<in> set cs"
proof -
  obtain ty where b: "build_filter q = Conditions (ty @ concat (map (stat_condition q) statFields))"
    using build_filter_conditions by blast
  have "(''base.'' @ stat, Bounds (map_option Number (q (''min'' @ stat))) (map_option Number (q (''max'' @ stat))))
      \<in> set (stat_condition q stat)"
    by (simp add: stat_condition_present [OF assms(2)])
  with assms(1) have "(''base.'' @ stat, Bounds (map_option Number (q (''min'' @ stat))) (map_option Number (q (''max'' @ stat))))
      \<in> set (ty @ concat (map (stat_condition q) statFields))"
    by auto
  with b show ?thesis by blast
qed

text \<open>
  C1, as the code has it. The filter handler never answers 400: it hands the filter it
  built to the store and answers 200 or, when the store fails, 500. Every statistic
  bound that is present goes into the filter as \<^verbatim>\<open>Number(value)\<close>, unchecked, so a bound
  that is not numeric is the number \<open>NaN\<close> in the clause the store receives.
\<close>

theorem filter_bounds_coerced:
  "status (get_pokemon_filter cnt fnd q) \<noteq> 400 \<and>
   (\<exists>pg lm sk. get_pokemon_filter cnt fnd q = respond_page cnt fnd (build_filter q) pg lm sk) \<and>
   (\<forall>stat \<in> set statFields.
      q (''min'' @ stat) \<noteq> None \<or> q (''max'' @ stat) \<noteq> None \<longrightarrow>
      (\<exists>cs. build_filter q = Conditions cs \<and>
         (''base.'' @ stat,
          Bounds (map_option Number (q (''min'' @ stat))) (map_option Number (q (''max'' @ stat))))
           \<in> set cs))"
proof -
  obtain pg lm sk where p: "pagination q = (pg, lm, sk)"
    by (cases "pagination q") auto
  note h = handlers_respond(2) [OF p, of cnt fnd]
  from respond_page_status [of cnt fnd "build_filter q" pg lm sk] h
  have "status (get_pokemon_filter cnt fnd q) \<noteq> 400" by auto
  moreover from h have "\<exists>pg lm sk. get_pokemon_filter cnt fnd q = respond_page cnt fnd (build_filter q) pg lm sk"
    by blast
  ultimately show ?thesis using build_filter_has_bound [of _ q] by blast
qed

theorem filter_bounds_coerced_witness:
  "''HP'' \<in> set statFields \<and> query_of [(''minHP'', ''abc'')] (''min'' @ ''HP'') = Some ''abc'' \<and>
   Number ''abc'' = NaN \<and>
   build_filter (query_of [(''minHP'', ''abc'')]) = Conditions [(''base.HP'', Bounds (Some NaN) None)]"
proof -
  have a: "''HP'' \<in> set statFields" by code_simp
  have b: "query_of [(''minHP'', ''abc'')] (''min'' @ ''HP'') = Some ''abc''" by code_simp
  have c: "Number ''abc'' = NaN" by code_simp
  have d: "build_filter (query_of [(''minHP'', ''abc'')]) = Conditions [(''base.HP'', Bounds (Some NaN) None)]"
    by code_simp
  from filter_bounds_coerced [of "Pokemon_countDocuments sample_store" "Pokemon_find_page sample_store"
      "query_of [(''minHP'', ''abc'')]"] a b
  have "\<exists>cs. build_filter (query_of [(''minHP'', ''abc'')]) = Conditions cs \<and>
     (''base.'' @ ''HP'', Bounds (map_option Number (Some ''abc''))
        (map_option Number (query_of [(''minHP'', ''abc'')] (''max'' @ ''HP''))))
       \<in> set cs"
    by (metis option.distinct(1))
  with a b c d show ?thesis by blast
qed

text \<open>
  C1 as stated fails: \<^verbatim>\<open>minHP=abc\<close> is not answered with 400. The bound becomes \<open>NaN\<close>,
  the store cannot cast it, and the handler answers 500.
\<close>

theorem filter_non_numeric_bound:
  "Number ''abc'' = NaN \<and>
   get_pokemon_filter (Pokemon_countDocuments sample_store) (Pokemon_find_page sample_store)
     (query_of [(''minHP'', ''abc'')]) = status_json 500 (Error ''Cast to Number failed'') \<and>
   status (get_pokemon_filter (Pokemon_countDocuments sample_store) (Pokemon_find_page sample_store)
     (query_of [(''minHP'', ''abc'')])) \<noteq> 400"
  by code_simp

section \<open>Search\<close>

lemma not_meta_not_dot: "\<not> is_meta c \<Longrightarrow> c \<noteq> CHR ''.''"
  by (auto simp add: is_meta_def)

lemma match_here_prefix:
  "list_all (\<lambda>c. \<not> is_meta c) p \<Longrightarrow> match_here p s = prefix (map lower p) (map lower s)"
proof (induction p s rule: match_here.induct)
  case (1 s)
  then show ?case by simp
next
  case (2 p ps)
  then show ?case by simp
next
  case (3 p ps c cs)
  then have "p \<noteq> CHR ''.''" by (simp add: not_meta_not_dot)
  with 3 show ?case by (auto simp add: rx_char_def)
qed

lemma rx_search_sublist:
  "list_all (\<lambda>c. \<not> is_meta c) p \<Longrightarrow> rx_search p s = sublist (map lower p) (map lower s)"
proof (induction s)
  case Nil
  then show ?case by (cases p) simp_all
next
  case (Cons c cs)
  then show ?case
    using match_here_prefix [of p "c # cs"] by (simp add: sublist_Cons_right)
qed

lemma plain_in_fragment: "list_all (\<lambda>c. \<not> is_meta c) p \<Longrightarrow> in_fragment p"
  by (simp add: in_fragment_def list_all_iff)

lemma regex_i_plain:
  "list_all (\<lambda>c. \<not> is_meta c) p \<Longrightarrow> regex_i eng p = Some (rx_search p)"
  by (simp add: regex_i_def plain_in_fragment)

lemma search_filter_ok:
  "list_all (\<lambda>c. \<not> is_meta c) t \<Longrightarrow> query_error eng (search_filter t) = None"
  by (simp add: query_error_def search_filter_def regex_i_plain)

lemma search_filter_matches:
  "list_all (\<lambda>c. \<not> is_meta c) t \<Longrightarrow> matches eng (search_filter t) p = name_contains t p"
  by (simp add: matches_def search_filter_def condition_holds_def field_of_def regex_i_plain
      rx_search_sublist name_contains_def ci_substring_def)

text \<open>
  C2, as the code has it. The term goes to the store unescaped, as a pattern. For a term
  that is not empty and has no pattern metacharacter, whatever the store's engine does
  with other patterns, the search answers exactly the records, in the store's order, for
  which the term is a case-insensitive substring of one of the four names.
\<close>

theorem search_plain_term:
  assumes "q ''name'' = Some t" and "t \<noteq> []" and "list_all (\<lambda>c. \<not> is_meta c) t"
  shows "get_pokemon_search st q = json (Records (filter (name_contains t) (docs st)))"
proof -
  have "filter (matches (other_patterns st) (search_filter t)) (docs st) = filter (name_contains t) (docs st)"
    by (rule filter_cong) (simp_all add: search_filter_matches [OF assms(3)])
  with assms show ?thesis
    by (simp add: get_pokemon_search_def Pokemon_find_def search_filter_ok)
qed

theorem search_plain_term_witness:
  "get_pokemon_search sample_store (query_of [(''name'', ''SAUR'')]) =
     json (Records (filter (name_contains ''SAUR'') (docs sample_store))) \<and>
   filter (name_contains ''SAUR'') (docs sample_store) =
     [sample 3 ''Venusaur'' ''Florizarre'', sample 1 ''Bulbasaur'' ''Bulbizarre'',
      sample 2 ''Ivysaur'' ''Herbizarre'']"
proof -
  have a: "query_of [(''name'', ''SAUR'')] ''name'' = Some ''SAUR''" by code_simp
  have b: "''SAUR'' \<noteq> []" by simp
  have c: "list_all (\<lambda>c. \<not> is_meta c) ''SAUR''" by code_simp
  have d: "filter (name_contains ''SAUR'') (docs sample_store) =
     [sample 3 ''Venusaur'' ''Florizarre'', sample 1 ''Bulbasaur'' ''Bulbizarre'',
      sample 2 ''Ivysaur'' ''Herbizarre'']"
    by code_simp
  from search_plain_term [of "query_of [(''name'', ''SAUR'')]" "''SAUR''" sample_store, OF a b c] d
  show ?thesis by simp
qed

text \<open>
  C2 as stated fails: the term \<^verbatim>\<open>.\<close> is a substring of no name in the sample store, yet
  as a pattern it matches every record.
\<close>

theorem search_dot_matches_all:
  "get_pokemon_search sample_store (query_of [(''name'', ''.'')]) = json (Records (docs sample_store)) \<and>
   filter (name_contains ''.'') (docs sample_store) = [] \<and>
   docs sample_store \<noteq> []"
  by code_simp

text \<open>
  The listings that sort: whatever the paged find, the batch lookup and the full list
  return is in ascending order of id.
\<close>

lemma find_sorted_is_sorted: "Pokemon_find_sorted st f = Inr ps \<Longrightarrow> sorted (map p_id ps)"
  by (auto simp add: Pokemon_find_sorted_def sort_id_asc_def split: sum.splits)

lemma find_page_is_sorted:
  assumes "Pokemon_find_page st f sk lm = Inr ps"
  shows "sorted (map p_id ps)"
proof -
  from assms obtain xs where x: "Pokemon_find_sorted st f = Inr xs"
    and p: "ps = (let rest = drop (nat sk) xs in if lm = 0 then rest else take (nat \<bar>lm\<bar>) rest)"
    by (auto simp add: Pokemon_find_page_def split: sum.splits if_splits)
  from find_sorted_is_sorted [OF x] have "sorted (drop (nat sk) (map p_id xs))"
    by (rule sorted_wrt_drop)
  then have "sorted (take (nat \<bar>lm\<bar>) (drop (nat sk) (map p_id xs)))"
    and "sorted (drop (nat sk) (map p_id xs))"
    by (simp_all add: sorted_wrt_take)
  with p show ?thesis by (simp add: Let_def take_map drop_map)
qed

lemma list_all_is_sorted:
  "get_pokemon_list_all st = json (Projection rows) \<Longrightarrow> sorted (map fst rows)"
  by (auto simp add: get_pokemon_list_all_def json_def status_json_def select_fields_def [abs_def]
      comp_def dest!: find_sorted_is_sorted split: sum.splits)

text \<open>
  C5 fails for the search: it has no \<^verbatim>\<open>.sort({ id: 1 })\<close>, unlike every other handler that
  lists records, and answers in the store's natural order.
\<close>

theorem search_not_sorted:
  "(case body (get_pokemon_search sample_store (query_of [(''name'', ''saur'')])) of
      Records ps \<Rightarrow> map p_id ps = [3, 1, 2]
    | _ \<Rightarrow> False) \<and>
   \<not> sorted [3, 1, 2 :: int]"
  by code_simp

section \<open>Batch lookup\<close>


lemma idList_of_Fin:
  "Fin v \<in> set (idList_of ids) \<longleftrightarrow> (\<exists>t \<in> set (split_on (CHR '','') ids). Number t = Fin v)"
  by (force simp add: idList_of_def isNaN_def)

lemma idList_of_no_NaN: "NaN \<notin> set (idList_of ids)"
  by (simp add: idList_of_def isNaN_def)

lemma id_in_matches:
  "matches eng (Conditions [(''id'', InNumbers ns)]) p = (Fin (of_int (p_id p)) \<in> set ns)"
  by (simp add: matches_def condition_holds_def field_of_def)

lemma by_ids_result:
  assumes "q ''ids'' = Some ids" and "ids \<noteq> []"
  shows "get_pokemon_by_ids st q =
    json (Records (sort_key p_id
      (filter (\<lambda>p. \<exists>t \<in> set (split_on (CHR '','') ids). Number t = Fin (of_int (p_id p))) (docs st))))"
proof -
  have e: "query_error (other_patterns st) (Conditions [(''id'', InNumbers (idList_of ids))]) = None"
    by (simp add: query_error_def idList_of_no_NaN)
  have "filter (matches (other_patterns st) (Conditions [(''id'', InNumbers (idList_of ids))])) (docs st)
      = filter (\<lambda>p. \<exists>t \<in> set (split_on (CHR '','') ids). Number t = Fin (of_int (p_id p))) (docs st)"
    by (rule filter_cong) (simp_all add: id_in_matches idList_of_Fin)
  with assms e show ?thesis
    by (simp add: get_pokemon_by_ids_def Pokemon_find_sorted_def Pokemon_find_def sort_id_asc_def)
qed

text \<open>
  C7, as the code has it. An absent or empty \<^verbatim>\<open>ids\<close> parameter is answered with 400.
  Otherwise the value is split at its commas, every piece is read with \<^verbatim>\<open>Number\<close>, and
  the answer is the records whose id is the number of some piece, sorted by id; a piece
  that reads as \<open>NaN\<close> selects nothing and raises no error, and when every piece reads as
  \<open>NaN\<close> the answer is the empty list.
\<close>

theorem by_ids_lookup:
  "(q ''ids'' = None \<or> q ''ids'' = Some [] \<longrightarrow> status (get_pokemon_by_ids st q) = 400) \<and>
   (\<forall>ids. q ''ids'' = Some ids \<longrightarrow> ids \<noteq> [] \<longrightarrow>
      (\<exists>ps. get_pokemon_by_ids st q = json (Records ps) \<and>
         ps = sort_key p_id
           (filter (\<lambda>p. \<exists>t \<in> set (split_on (CHR '','') ids). Number t = Fin (of_int (p_id p))) (docs st)) \<and>
         sorted (map p_id ps) \<and>
         ((\<forall>t \<in> set (split_on (CHR '','') ids). Number t = NaN) \<longrightarrow> ps = [])))"
proof -
  have a: "q ''ids'' = None \<or> q ''ids'' = Some [] \<longrightarrow> status (get_pokemon_by_ids st q) = 400"
    by (auto simp add: get_pokemon_by_ids_def status_json_def)
  have b: "\<exists>ps. get_pokemon_by_ids st q = json (Records ps) \<and>
         ps = sort_key p_id
           (filter (\<lambda>p. \<exists>t \<in> set (split_on (CHR '','') ids). Number t = Fin (of_int (p_id p))) (docs st)) \<and>
         sorted (map p_id ps) \<and>
         ((\<forall>t \<in> set (split_on (CHR '','') ids). Number t = NaN) \<longrightarrow> ps = [])"
    if "q ''ids'' = Some ids" "ids \<noteq> []" for ids
  proof -
    have "(\<forall>t \<in> set (split_on (CHR '','') ids). Number t = NaN) \<longrightarrow>
      filter (\<lambda>p. \<exists>t \<in> set (split_on (CHR '','') ids). Number t = Fin (of_int (p_id p))) (docs st) = []"
      by (auto simp add: filter_empty_conv)
    then show ?thesis
      using by_ids_result [of q ids st, OF that] by auto
  qed
  from a b show ?thesis by blast
qed

theorem by_ids_lookup_witness:
  "get_pokemon_by_ids sample_store (query_of [(''ids'', ''1,abc,3'')]) =
     json (Records [sample 1 ''Bulbasaur'' ''Bulbizarre'', sample 3 ''Venusaur'' ''Florizarre'']) \<and>
   split_on (CHR '','') ''1,abc,3'' = [''1'', ''abc'', ''3''] \<and> Number ''abc'' = NaN \<and>
   sorted (map p_id [sample 1 ''Bulbasaur'' ''Bulbizarre'', sample 3 ''Venusaur'' ''Florizarre''])"
proof -
  have a: "query_of [(''ids'', ''1,abc,3'')] ''ids'' = Some ''1,abc,3''" by code_simp
  have b: "''1,abc,3'' \<noteq> []" by simp
  have h: "get_pokemon_by_ids sample_store (query_of [(''ids'', ''1,abc,3'')]) =
     json (Records [sample 1 ''Bulbasaur'' ''Bulbizarre'', sample 3 ''Venusaur'' ''Florizarre''])"
    by code_simp
  have s: "split_on (CHR '','') ''1,abc,3'' = [''1'', ''abc'', ''3'']" by code_simp
  have n: "Number ''abc'' = NaN" by code_simp
  from by_ids_lookup [of "query_of [(''ids'', ''1,abc,3'')]" sample_store] a b
  obtain ps where "get_pokemon_by_ids sample_store (query_of [(''ids'', ''1,abc,3'')]) = json (Records ps)"
    and "sorted (map p_id ps)"
    by blast
  with h have "sorted (map p_id [sample 1 ''Bulbasaur'' ''Bulbizarre'', sample 3 ''Venusaur'' ''Florizarre''])"
    by (simp add: json_def)
  with h s n show ?thesis by blast
qed

text \<open>
  C7 as stated fails: an \<^verbatim>\<open>ids\<close> parameter that is present but empty is answered with
  400, as an absent one is, not with an empty list.
\<close>

theorem by_ids_empty_value:
  "query_of [(''ids'', [])] ''ids'' = Some [] \<and>
   status (get_pokemon_by_ids sample_store (query_of [(''ids'', [])])) = 400"
  by code_simp

text \<open>
  C10. An empty piece of the split \<^verbatim>\<open>ids\<close> value reads as the number \<open>0\<close>, stays in the
  list of ids that is queried, and so a record with id \<open>0\<close> is part of the answer.
\<close>

theorem empty_token_is_zero:
  assumes "q ''ids'' = Some ids" and "ids \<noteq> []" and "[] \<in> set (split_on (CHR '','') ids)"
    and "p \<in> set (docs st)" and "p_id p = 0"
  shows "Number [] = Fin 0 \<and> Fin 0 \<in> set (idList_of ids) \<and>
    (\<exists>ps. get_pokemon_by_ids st q = json (Records ps) \<and> p \<in> set ps)"
proof -
  have n: "Number [] = Fin 0" by (simp add: Number_def trim_def)
  with assms(3) have z: "Fin 0 \<in> set (idList_of ids)"
    using idList_of_Fin [of 0 ids] by auto
  from assms(3,5) n have "\<exists>t \<in> set (split_on (CHR '','') ids). Number t = Fin (of_int (p_id p))"
    by auto
  with assms(4) have "p \<in> set (sort_key p_id
      (filter (\<lambda>p. \<exists>t \<in> set (split_on (CHR '','') ids). Number t = Fin (of_int (p_id p))) (docs st)))"
    by simp
  with by_ids_result [of q ids st, OF assms(1,2)] n z show ?thesis by blast
qed

theorem empty_token_is_zero_witness:
  "split_on (CHR '','') ''1,,3'' = [''1'', [], ''3''] \<and>
   idList_of ''1,,3'' = [Fin 1, Fin 0, Fin 3] \<and>
   get_pokemon_by_ids sample_store (query_of [(''ids'', ''1,,3'')]) =
     json (Records [sample 0 ''Missingno'' ''Missingno'', sample 1 ''Bulbasaur'' ''Bulbizarre'',
                    sample 3 ''Venusaur'' ''Florizarre''])"
proof -
  have a: "query_of [(''ids'', ''1,,3'')] ''ids'' = Some ''1,,3''" by code_simp
  have b: "''1,,3'' \<noteq> []" by simp
  have s: "split_on (CHR '','') ''1,,3'' = [''1'', [], ''3'']" by code_simp
  then have c: "[] \<in> set (split_on (CHR '','') ''1,,3'')" by simp
  have d: "sample 0 ''Missingno'' ''Missingno'' \<in> set (docs sample_store)" by code_simp
  have e: "p_id (sample 0 ''Missingno'' ''Missingno'') = 0" by code_simp
  have i: "idList_of ''1,,3'' = [Fin 1, Fin 0, Fin 3]" by code_simp
  have h: "get_pokemon_by_ids sample_store (query_of [(''ids'', ''1,,3'')]) =
     json (Records [sample 0 ''Missingno'' ''Missingno'', sample 1 ''Bulbasaur'' ''Bulbizarre'',
                    sample 3 ''Venusaur'' ''Florizarre''])"
    by code_simp
  from empty_token_is_zero [of "query_of [(''ids'', ''1,,3'')]" "''1,,3''"
      "sample 0 ''Missingno'' ''Missingno''" sample_store, OF a b c d e]
  have "Fin 0 \<in> set (idList_of ''1,,3'')" by blast
  with s i h show ?thesis by blast
qed

section \<open>Creation, lookup by id and deletion\<close>

lemma find_everything: "Pokemon_find st (Conditions []) = Inr (docs st)"
  by (simp add: Pokemon_find_def query_error_def matches_def)

lemma sort_id_desc_head:
  assumes "ps \<noteq> []"
  shows "\<exists>l rest. sort_id_desc ps = l # rest \<and> l \<in> set ps \<and> p_id l = Max (p_id ` set ps)"
proof -
  let ?ys = "sort_key (\<lambda>p. - p_id p) ps"
  from assms have "?ys \<noteq> []" by (metis length_0_conv length_sort)
  then obtain l rest where ys: "?ys = l # rest" by (cases ?ys) auto
  have mem: "l \<in> set ps"
    by (metis ys list.set_intros(1) set_sort)
  have "sorted (map (\<lambda>p. - p_id p) ?ys)" by (rule sorted_sort_key)
  with ys have "\<forall>y \<in> set rest. - p_id l \<le> - p_id y" by simp
  moreover have "set ps = insert l (set rest)"
    by (metis ys list.simps(15) set_sort)
  ultimately have "\<forall>y \<in> set ps. p_id y \<le> p_id l" by auto
  with mem have "Max (p_id ` set ps) = p_id l"
    by (intro Max_eqI) auto
  with ys mem show ?thesis by (auto simp add: sort_id_desc_def)
qed

lemma last_pokemon:
  "\<exists>l. Pokemon_findOne_sort_desc st (Conditions []) = Inr l \<and>
     new_id l = (if docs st = [] then 1 else js_add (Max (p_id ` set (docs st))) 1)"
proof (cases "docs st = []")
  case True
  then show ?thesis
    by (simp add: Pokemon_findOne_sort_desc_def find_everything sort_id_desc_def new_id_def)
next
  case False
  from sort_id_desc_head [OF this] obtain l rest
    where "sort_id_desc (docs st) = l # rest" "p_id l = Max (p_id ` set (docs st))" by blast
  with False show ?thesis
    by (simp add: Pokemon_findOne_sort_desc_def find_everything new_id_def)
qed

lemma round_double_limit: "round_double 9007199254740992 = 9007199254740992"
  by code_simp

lemma js_add_at_limit: "js_add 9007199254740992 1 = 9007199254740992"
  by code_simp

lemma js_add_one_safe:
  assumes "\<bar>a\<bar> < 2 ^ 53"
  shows "js_add a 1 = a + 1"
proof (cases "a + 1 = 2 ^ 53")
  case True
  then show ?thesis using round_double_limit by (simp add: js_add_def)
next
  case False
  with assms have "\<bar>a + 1\<bar> < 2 ^ 53" by simp
  then show ?thesis by (simp add: js_add_def round_double_def)
qed

lemma Max_safe:
  assumes "ps \<noteq> []" and "\<forall>p \<in> set ps. \<bar>p_id p\<bar> < 2 ^ 53"
  shows "\<bar>Max (p_id ` set ps)\<bar> < 2 ^ 53"
proof -
  from assms(1) have "Max (p_id ` set ps) \<in> p_id ` set ps" by (intro Max_in) simp_all
  with assms(2) show ?thesis by auto
qed

lemma big_max: "Max (p_id ` set (docs big_store)) = 9007199254740992"
  by (simp add: big_store_def store_of_def sample_def)

lemma sample_max: "Max (p_id ` set (docs sample_store)) = 3"
  by (simp add: sample_store_def store_of_def sample_def)

lemma sample_safe: "\<forall>p \<in> set (docs sample_store). \<bar>p_id p\<bar> < 2 ^ 53"
  by (simp add: sample_store_def store_of_def sample_def)

lemma post_complete:
  assumes "b_name b = Some n" and "b_type b = Some t" and "b_base b = Some s"
  shows "\<exists>saved. post_pokemon st b = (status_json 201 (Record saved), st\<lparr>docs := docs st @ [saved]\<rparr>) \<and>
     p_id saved = (if docs st = [] then 1 else js_add (Max (p_id ` set (docs st))) 1) \<and>
     p_name saved = n \<and> p_type saved = t \<and> p_base saved = s \<and>
     p_image saved = (case b_image b of None \<Rightarrow> image_url (p_id saved)
                      | Some i \<Rightarrow> if i = [] then image_url (p_id saved) else i)"
proof -
  from last_pokemon [of st] obtain l where l: "Pokemon_findOne_sort_desc st (Conditions []) = Inr l"
    and n: "new_id l = (if docs st = [] then 1 else js_add (Max (p_id ` set (docs st))) 1)" by blast
  define saved where "saved =
    \<lparr>p_id = new_id l, p_name = n, p_type = t, p_base = s,
     p_image = (case b_image b of None \<Rightarrow> image_url (new_id l)
                | Some i \<Rightarrow> if i = [] then image_url (new_id l) else i)\<rparr>"
  have "post_pokemon st b = (status_json 201 (Record saved), st\<lparr>docs := docs st @ [saved]\<rparr>)"
    using assms by (simp add: post_pokemon_def l Let_def save_def validate_def saved_def)
  moreover have "p_id saved = new_id l" "p_name saved = n" "p_type saved = t" "p_base saved = s"
    "p_image saved = (case b_image b of None \<Rightarrow> image_url (p_id saved)
                      | Some i \<Rightarrow> if i = [] then image_url (p_id saved) else i)"
    by (simp_all add: saved_def split: option.splits)
  ultimately show ?thesis using n by (intro exI [of _ saved]) simp
qed

lemma post_incomplete:
  assumes "\<not> complete_payload b"
  shows "post_pokemon st b = (status_json 400 (Error ''Pokemon validation failed''), st)"
proof -
  from last_pokemon [of st] obtain l where l: "Pokemon_findOne_sort_desc st (Conditions []) = Inr l"
    by blast
  from assms show ?thesis
    by (auto simp add: post_pokemon_def l Let_def save_def validate_def complete_payload_def
        split: option.splits)
qed

lemma next_id_safe:
  assumes "\<forall>p \<in> set (docs st). \<bar>p_id p\<bar> < 2 ^ 53"
  shows "(if docs st = [] then 1 else js_add (Max (p_id ` set (docs st))) 1) =
    (if docs st = [] then 1 else Max (p_id ` set (docs st)) + 1)"
  using assms Max_safe [of "docs st"] by (simp add: js_add_one_safe)

lemma post_complete_id:
  assumes "complete_payload b" and "\<forall>p \<in> set (docs st). \<bar>p_id p\<bar> < 2 ^ 53"
  shows "\<exists>saved. post_pokemon st b = (status_json 201 (Record saved), st\<lparr>docs := docs st @ [saved]\<rparr>) \<and>
     p_id saved = (if docs st = [] then 1 else Max (p_id ` set (docs st)) + 1)"
proof -
  from assms(1) obtain n t s where "b_name b = Some n" "b_type b = Some t" "b_base b = Some s"
    by (auto simp add: complete_payload_def)
  from post_complete [OF this, of st] next_id_safe [OF assms(2)] show ?thesis by auto
qed

lemma sample_payload_complete: "complete_payload (sample_payload img)"
  by (simp add: complete_payload_def sample_payload_def)

lemma big_store_post:
  "\<exists>saved. post_pokemon big_store (sample_payload None) =
       (status_json 201 (Record saved), big_store\<lparr>docs := docs big_store @ [saved]\<rparr>) \<and>
     p_id saved = 9007199254740992 \<and> p_type saved = [''Psychic'']"
proof -
  have n: "docs big_store \<noteq> []" by (simp add: big_store_def store_of_def)
  have a: "b_name (sample_payload None) =
      Some \<lparr>english = ''Mew'', french = ''Mew'', japanese = ''myuu'', chinese = ''menghuan''\<rparr>"
    and b: "b_type (sample_payload None) = Some [''Psychic'']"
    and c: "b_base (sample_payload None) = Some sample_stats"
    by (simp_all add: sample_payload_def)
  from post_complete [OF a b c, of big_store] obtain saved
    where "post_pokemon big_store (sample_payload None) =
       (status_json 201 (Record saved), big_store\<lparr>docs := docs big_store @ [saved]\<rparr>)"
      and "p_id saved = (if docs big_store = [] then 1 else js_add (Max (p_id ` set (docs big_store))) 1)"
      and "p_type saved = [''Psychic'']"
    by blast
  with n big_max js_add_at_limit show ?thesis by (intro exI [of _ saved]) simp
qed

text \<open>
  C6, as the code has it. In a store whose ids are safe integers (of magnitude below
  \<open>2 ^ 53\<close>), a creation request with a complete payload is answered 201 with a record
  whose id is the largest id in the store plus one, or 1 when the store is empty, and
  that record is added to the store; an incomplete payload is answered 400 and allocates
  nothing. So on an empty store a first creation gets id 1 and the one right after it
  gets id 2.
\<close>

theorem create_allocates_next_id:
  assumes "\<forall>p \<in> set (docs st). \<bar>p_id p\<bar> < 2 ^ 53"
  shows "(complete_payload b \<longrightarrow>
      (\<exists>saved. post_pokemon st b = (status_json 201 (Record saved), st\<lparr>docs := docs st @ [saved]\<rparr>) \<and>
         p_id saved = (if docs st = [] then 1 else Max (p_id ` set (docs st)) + 1))) \<and>
   (\<not> complete_payload b \<longrightarrow> status (fst (post_pokemon st b)) = 400 \<and> snd (post_pokemon st b) = st) \<and>
   (complete_payload b \<and> complete_payload b2 \<and> docs st = [] \<longrightarrow>
      (\<exists>s1 st1 s2 st2.
         post_pokemon st b = (status_json 201 (Record s1), st1) \<and>
         post_pokemon st1 b2 = (status_json 201 (Record s2), st2) \<and>
         p_id s1 = 1 \<and> p_id s2 = 2))"
proof -
  have first: "complete_payload b \<longrightarrow>
      (\<exists>saved. post_pokemon st b = (status_json 201 (Record saved), st\<lparr>docs := docs st @ [saved]\<rparr>) \<and>
         p_id saved = (if docs st = [] then 1 else Max (p_id ` set (docs st)) + 1))"
    using post_complete_id [of b st] assms by blast
  have rejected: "\<not> complete_payload b \<longrightarrow>
      status (fst (post_pokemon st b)) = 400 \<and> snd (post_pokemon st b) = st"
    by (simp add: post_incomplete status_json_def)
  have twice: "\<exists>s1 st1 s2 st2.
         post_pokemon st b = (status_json 201 (Record s1), st1) \<and>
         post_pokemon st1 b2 = (status_json 201 (Record s2), st2) \<and>
         p_id s1 = 1 \<and> p_id s2 = 2"
    if c: "complete_payload b" "complete_payload b2" and e: "docs st = []"
  proof -
    from post_complete_id [OF c(1) assms] e obtain s1
      where p1: "post_pokemon st b = (status_json 201 (Record s1), st\<lparr>docs := [s1]\<rparr>)"
        and i1: "p_id s1 = 1" by auto
    from i1 have "\<forall>p \<in> set (docs (st\<lparr>docs := [s1]\<rparr>)). \<bar>p_id p\<bar> < 2 ^ 53" by simp
    from post_complete_id [OF c(2) this] i1 obtain s2 st2
      where "post_pokemon (st\<lparr>docs := [s1]\<rparr>) b2 = (status_json 201 (Record s2), st2)"
        and "p_id s2 = 2" by auto
    with p1 i1 show ?thesis by blast
  qed
  from first rejected twice show ?thesis by blast
qed

theorem create_allocates_next_id_witness:
  "complete_payload (sample_payload None) \<and>
   (\<exists>saved. post_pokemon sample_store (sample_payload None) =
       (status_json 201 (Record saved), sample_store\<lparr>docs := docs sample_store @ [saved]\<rparr>) \<and>
     p_id saved = 4) \<and>
   (\<exists>s1 st1 s2 st2.
      post_pokemon (store_of []) (sample_payload None) = (status_json 201 (Record s1), st1) \<and>
      post_pokemon st1 (sample_payload None) = (status_json 201 (Record s2), st2) \<and>
      p_id s1 = 1 \<and> p_id s2 = 2)"
proof -
  note a = sample_payload_complete [of None]
  have n: "docs sample_store \<noteq> []" by (simp add: sample_store_def store_of_def)
  have e: "docs (store_of []) = []" "\<forall>p \<in> set (docs (store_of [])). \<bar>p_id p\<bar> < 2 ^ 53"
    by (simp_all add: store_of_def)
  from create_allocates_next_id [OF sample_safe, of "sample_payload None"] a n sample_max
  have "\<exists>saved. post_pokemon sample_store (sample_payload None) =
       (status_json 201 (Record saved), sample_store\<lparr>docs := docs sample_store @ [saved]\<rparr>) \<and>
     p_id saved = 4"
    by auto
  moreover from create_allocates_next_id [OF e(2), of "sample_payload None" "sample_payload None"] a e(1)
  have "\<exists>s1 st1 s2 st2.
      post_pokemon (store_of []) (sample_payload None) = (status_json 201 (Record s1), st1) \<and>
      post_pokemon st1 (sample_payload None) = (status_json 201 (Record s2), st2) \<and>
      p_id s1 = 1 \<and> p_id s2 = 2"
    by blast
  ultimately show ?thesis using a by blast
qed

text \<open>
  C6 as stated fails: the id is allocated with an addition of doubles. When the largest
  id is \<open>2 ^ 53\<close>, adding one gives \<open>2 ^ 53\<close> again, and the new record gets the id that
  is already there, not the largest id plus one.
\<close>

theorem create_at_double_limit:
  "Max (p_id ` set (docs big_store)) + 1 = 9007199254740993 \<and>
   (case body (fst (post_pokemon big_store (sample_payload None))) of
      Record p \<Rightarrow> p_id p = 9007199254740992
    | _ \<Rightarrow> False)"
proof -
  from big_store_post obtain saved
    where "fst (post_pokemon big_store (sample_payload None)) = status_json 201 (Record saved)"
      and "p_id saved = 9007199254740992"
    by auto
  with big_max show ?thesis by (simp add: status_json_def)
qed

lemma id_value_matches:
  "matches eng (Conditions [(''id'', Value s)]) p = (s \<noteq> [] \<and> Number s = Fin (of_int (p_id p)))"
  by (simp add: matches_def condition_holds_def field_of_def)

lemma id_value_ok: "Number s \<noteq> NaN \<Longrightarrow> query_error eng (Conditions [(''id'', Value s)]) = None"
  by (simp add: query_error_def)

lemma id_value_fails:
  "Number s = NaN \<Longrightarrow> query_error eng (Conditions [(''id'', Value s)]) = Some ''Cast to Number failed''"
  by (auto simp add: query_error_def Number_def trim_def)

lemma findOne_by_id:
  assumes "s \<noteq> []" and "Number s \<noteq> NaN"
  shows "Pokemon_findOne st (Conditions [(''id'', Value s)]) =
    Inr (case filter (\<lambda>p. Fin (of_int (p_id p)) = Number s) (docs st) of [] \<Rightarrow> None | p # _ \<Rightarrow> Some p)"
proof -
  have "filter (matches (other_patterns st) (Conditions [(''id'', Value s)])) (docs st) =
      filter (\<lambda>p. Fin (of_int (p_id p)) = Number s) (docs st)"
    by (rule filter_cong) (auto simp add: id_value_matches assms(1))
  with assms(2) show ?thesis
    by (simp add: Pokemon_findOne_def Pokemon_find_def id_value_ok)
qed

lemma fetch_created:
  assumes "\<forall>p \<in> set ps. p_id p < p_id saved"
  shows "get_pokemon_by_id (st\<lparr>docs := ps @ [saved]\<rparr>) (js_to_string (p_id saved)) = json (Record saved)"
proof -
  from assms have "filter (\<lambda>p. Fin (of_int (p_id p)) = Number (js_to_string (p_id saved))) ps = []"
    by (auto simp add: filter_empty_conv Number_js_to_string)
  then have "filter (\<lambda>p. Fin (of_int (p_id p)) = Number (js_to_string (p_id saved))) (ps @ [saved]) = [saved]"
    by (simp add: Number_js_to_string)
  then show ?thesis
    by (simp add: get_pokemon_by_id_def findOne_by_id js_to_string_nonempty Number_js_to_string)
qed

lemma below_next_id:
  assumes "k = (if ps = [] then 1 else Max (p_id ` set ps) + 1)"
  shows "\<forall>p \<in> set ps. p_id p < k"
proof
  fix p assume "p \<in> set ps"
  then have "p_id p \<le> Max (p_id ` set ps)" by simp
  with \<open>p \<in> set ps\<close> assms show "p_id p < k" by auto
qed

lemma big_store_fetch:
  "(case body (fst (post_pokemon big_store (sample_payload None))) of
      Record p \<Rightarrow> p_id p = 9007199254740992 \<and> p_type p = [''Psychic'']
    | _ \<Rightarrow> False) \<and>
   get_pokemon_by_id (snd (post_pokemon big_store (sample_payload None)))
       (js_to_string 9007199254740992) =
     json (Record (sample 9007199254740992 ''Mewtwo'' ''Mewtwo'')) \<and>
   p_type (sample 9007199254740992 ''Mewtwo'' ''Mewtwo'') = [''Grass'', ''Poison'']"
proof -
  from big_store_post obtain saved
    where p: "post_pokemon big_store (sample_payload None) =
       (status_json 201 (Record saved), big_store\<lparr>docs := docs big_store @ [saved]\<rparr>)"
      and i: "p_id saved = 9007199254740992" and t: "p_type saved = [''Psychic'']"
    by blast
  have "filter (\<lambda>p. Fin (of_int (p_id p)) = Number (js_to_string 9007199254740992))
      (docs big_store @ [saved]) = [sample 9007199254740992 ''Mewtwo'' ''Mewtwo'', saved]"
    using i by (simp add: Number_js_to_string big_store_def store_of_def sample_def)
  then have "get_pokemon_by_id (big_store\<lparr>docs := docs big_store @ [saved]\<rparr>)
       (js_to_string 9007199254740992) =
     json (Record (sample 9007199254740992 ''Mewtwo'' ''Mewtwo''))"
    by (simp add: get_pokemon_by_id_def findOne_by_id js_to_string_nonempty Number_js_to_string)
  with p i t show ?thesis by (simp add: status_json_def sample_def)
qed

lemma empty_image_defaulted:
  "b_image (sample_payload (Some [])) = Some [] \<and>
   (case body (get_pokemon_by_id (snd (post_pokemon (store_of []) (sample_payload (Some [])))) ''1'') of
      Record p \<Rightarrow> p_id p = 1 \<and> p_image p = ''http://localhost:3000/assets/pokemons/1.png'' \<and> p_image p \<noteq> []
    | _ \<Rightarrow> False)"
  by code_simp

text \<open>
  C8, as the code has it. In a store whose ids are safe integers (of magnitude below
  \<open>2 ^ 53\<close>), creating a record from a payload with name, type and base and then fetching
  \<^verbatim>\<open>/pokemon/:id\<close> with the returned id gives the created record back: its name, type and
  base are the payload's, its id is the largest id before plus one (1 on an empty store),
  and its image is the payload's image when that is a non-empty string, and otherwise
  (omitted or empty) the URL built from the allocated id.
\<close>

theorem create_then_fetch:
  assumes "b_name b = Some n" and "b_type b = Some t" and "b_base b = Some s"
    and "\<forall>p \<in> set (docs st). \<bar>p_id p\<bar> < 2 ^ 53"
  shows "\<exists>saved st'. post_pokemon st b = (status_json 201 (Record saved), st') \<and>
     get_pokemon_by_id st' (js_to_string (p_id saved)) = json (Record saved) \<and>
     p_name saved = n \<and> p_type saved = t \<and> p_base saved = s \<and>
     p_image saved = (case b_image b of None \<Rightarrow> image_url (p_id saved)
                      | Some i \<Rightarrow> if i = [] then image_url (p_id saved) else i) \<and>
     p_id saved = (if docs st = [] then 1 else Max (p_id ` set (docs st)) + 1)"
proof -
  from post_complete [OF assms(1-3), of st] next_id_safe [OF assms(4)] obtain saved
    where p: "post_pokemon st b = (status_json 201 (Record saved), st\<lparr>docs := docs st @ [saved]\<rparr>)"
      and i: "p_id saved = (if docs st = [] then 1 else Max (p_id ` set (docs st)) + 1)"
      and f: "p_name saved = n" "p_type saved = t" "p_base saved = s"
        "p_image saved = (case b_image b of None \<Rightarrow> image_url (p_id saved)
                      | Some i \<Rightarrow> if i = [] then image_url (p_id saved) else i)"
    by auto
  from fetch_created [OF below_next_id [OF i], of st]
  have "get_pokemon_by_id (st\<lparr>docs := docs st @ [saved]\<rparr>) (js_to_string (p_id saved)) = json (Record saved)" .
  with p i f show ?thesis by blast
qed

theorem create_then_fetch_witness:
  "fst (post_pokemon sample_store (sample_payload None)) =
     status_json 201 (Record \<lparr>p_id = 4,
        p_name = \<lparr>english = ''Mew'', french = ''Mew'', japanese = ''myuu'', chinese = ''menghuan''\<rparr>,
        p_type = [''Psychic''], p_base = sample_stats,
        p_image = ''http://localhost:3000/assets/pokemons/4.png''\<rparr>) \<and>
   get_pokemon_by_id (snd (post_pokemon sample_store (sample_payload None))) (js_to_string 4) =
     json (Record \<lparr>p_id = 4,
        p_name = \<lparr>english = ''Mew'', french = ''Mew'', japanese = ''myuu'', chinese = ''menghuan''\<rparr>,
        p_type = [''Psychic''], p_base = sample_stats,
        p_image = ''http://localhost:3000/assets/pokemons/4.png''\<rparr>)"
proof -
  have a: "b_name (sample_payload None) =
      Some \<lparr>english = ''Mew'', french = ''Mew'', japanese = ''myuu'', chinese = ''menghuan''\<rparr>"
    and b: "b_type (sample_payload None) = Some [''Psychic'']"
    and c: "b_base (sample_payload None) = Some sample_stats"
    by (simp_all add: sample_payload_def)
  have h: "fst (post_pokemon sample_store (sample_payload None)) =
     status_json 201 (Record \<lparr>p_id = 4,
        p_name = \<lparr>english = ''Mew'', french = ''Mew'', japanese = ''myuu'', chinese = ''menghuan''\<rparr>,
        p_type = [''Psychic''], p_base = sample_stats,
        p_image = ''http://localhost:3000/assets/pokemons/4.png''\<rparr>)"
    by code_simp
  from create_then_fetch [OF a b c sample_safe] obtain saved st'
    where p: "post_pokemon sample_store (sample_payload None) = (status_json 201 (Record saved), st')"
      and g: "get_pokemon_by_id st' (js_to_string (p_id saved)) = json (Record saved)"
    by blast
  from p h have "saved = \<lparr>p_id = 4,
        p_name = \<lparr>english = ''Mew'', french = ''Mew'', japanese = ''myuu'', chinese = ''menghuan''\<rparr>,
        p_type = [''Psychic''], p_base = sample_stats,
        p_image = ''http://localhost:3000/assets/pokemons/4.png''\<rparr>"
    by (simp add: status_json_def)
  with p g h show ?thesis by simp
qed

text \<open>
  C8 as stated fails twice. An image that is given as the empty string is not kept: the
  fetched record carries the URL built from the id, as if the image had been omitted.
  And when the largest id is \<open>2 ^ 53\<close> the created record gets that same id, so that
  fetching the returned id gives the older record, not the created one.
\<close>

theorem create_round_trip_fails:
  "b_image (sample_payload (Some [])) = Some [] \<and>
   (case body (get_pokemon_by_id (snd (post_pokemon (store_of []) (sample_payload (Some [])))) ''1'') of
      Record p \<Rightarrow> p_id p = 1 \<and> p_image p = ''http://localhost:3000/assets/pokemons/1.png'' \<and> p_image p \<noteq> []
    | _ \<Rightarrow> False) \<and>
   (case body (fst (post_pokemon big_store (sample_payload None))) of
      Record p \<Rightarrow> p_id p = 9007199254740992 \<and> p_type p = [''Psychic'']
    | _ \<Rightarrow> False) \<and>
   get_pokemon_by_id (snd (post_pokemon big_store (sample_payload None)))
       (js_to_string 9007199254740992) =
     json (Record (sample 9007199254740992 ''Mewtwo'' ''Mewtwo'')) \<and>
   p_type (sample 9007199254740992 ''Mewtwo'' ''Mewtwo'') = [''Grass'', ''Poison'']"
  using empty_image_defaulted big_store_fetch by blast

lemma first_match:
  assumes "\<exists>p \<in> set ps. P p"
  shows "\<exists>d rest. filter P ps = d # rest \<and> d \<in> set ps \<and> P d"
proof -
  from assms have "filter P ps \<noteq> []" by (simp add: filter_empty_conv)
  then obtain d rest where f: "filter P ps = d # rest" by (cases "filter P ps") auto
  have "d \<in> set (filter P ps)" by (simp add: f)
  then have "d \<in> set ps \<and> P d" by simp
  with f show ?thesis by blast
qed

lemma delete_cast_failure:
  assumes "Number id_param = NaN"
  shows "delete_pokemon st id_param = (status_json 500 (Error ''Cast to Number failed''), st)"
  using assms
  by (simp add: delete_pokemon_def Pokemon_findOneAndDelete_def Pokemon_findOne_def
      Pokemon_find_def id_value_fails)

text \<open>
  C9, as the code has it. For an id parameter that reads as a number: when some record
  has that id, the handler answers 200 with the removed record, which is the first such
  record of the store, and the store has lost exactly it; when no record has that id, the
  handler answers 404 and the store is unchanged. For an id parameter that does not read
  as a number the store cannot cast it, and the handler answers 500, the store unchanged.
\<close>

theorem delete_by_id:
  "(id_param \<noteq> [] \<and> Number id_param \<noteq> NaN \<longrightarrow>
      ((\<exists>p \<in> set (docs st). Fin (of_int (p_id p)) = Number id_param) \<longrightarrow>
        (\<exists>d. d \<in> set (docs st) \<and> Fin (of_int (p_id d)) = Number id_param \<and>
           delete_pokemon st id_param =
             (json (Deleted deleted_message d), st\<lparr>docs := remove1 d (docs st)\<rparr>))) \<and>
      ((\<forall>p \<in> set (docs st). Fin (of_int (p_id p)) \<noteq> Number id_param) \<longrightarrow>
        delete_pokemon st id_param = (status_json 404 (Error not_found), st))) \<and>
   (Number id_param = NaN \<longrightarrow>
      status (fst (delete_pokemon st id_param)) = 500 \<and> snd (delete_pokemon st id_param) = st)"
proof -
  have found: "\<exists>d. d \<in> set (docs st) \<and> Fin (of_int (p_id d)) = Number id_param \<and>
         delete_pokemon st id_param =
           (json (Deleted deleted_message d), st\<lparr>docs := remove1 d (docs st)\<rparr>)"
    if a: "id_param \<noteq> []" "Number id_param \<noteq> NaN"
      and e: "\<exists>p \<in> set (docs st). Fin (of_int (p_id p)) = Number id_param"
  proof -
    note f = findOne_by_id [OF a, of st]
    from first_match [OF e] obtain d rest
      where "filter (\<lambda>p. Fin (of_int (p_id p)) = Number id_param) (docs st) = d # rest"
        and "d \<in> set (docs st)" and "Fin (of_int (p_id d)) = Number id_param"
      by blast
    then show ?thesis
      by (intro exI [of _ d]) (simp add: delete_pokemon_def Pokemon_findOneAndDelete_def f)
  qed
  have missing: "delete_pokemon st id_param = (status_json 404 (Error not_found), st)"
    if a: "id_param \<noteq> []" "Number id_param \<noteq> NaN"
      and e: "\<forall>p \<in> set (docs st). Fin (of_int (p_id p)) \<noteq> Number id_param"
  proof -
    note f = findOne_by_id [OF a, of st]
    from e have "filter (\<lambda>p. Fin (of_int (p_id p)) = Number id_param) (docs st) = []"
      by (simp add: filter_empty_conv)
    then show ?thesis
      by (simp add: delete_pokemon_def Pokemon_findOneAndDelete_def f)
  qed
  have failed: "Number id_param = NaN \<longrightarrow>
      status (fst (delete_pokemon st id_param)) = 500 \<and> snd (delete_pokemon st id_param) = st"
    by (simp add: delete_cast_failure status_json_def)
  from found missing failed show ?thesis by blast
qed

theorem delete_by_id_witness:
  "delete_pokemon sample_store ''999'' = (status_json 404 (Error not_found), sample_store) \<and>
   fst (delete_pokemon sample_store ''1'') =
     json (Deleted deleted_message (sample 1 ''Bulbasaur'' ''Bulbizarre'')) \<and>
   docs (snd (delete_pokemon sample_store ''1'')) =
     [sample 3 ''Venusaur'' ''Florizarre'', sample 0 ''Missingno'' ''Missingno'',
      sample 2 ''Ivysaur'' ''Herbizarre''] \<and>
   Number ''abc'' = NaN \<and> snd (delete_pokemon sample_store ''abc'') = sample_store"
proof -
  have a: "''999'' \<noteq> []" by simp
  have b: "Number ''999'' \<noteq> NaN" by code_simp
  have c: "\<forall>p \<in> set (docs sample_store). Fin (of_int (p_id p)) \<noteq> Number ''999''" by code_simp
  have n: "Number ''abc'' = NaN" by code_simp
  have e: "fst (delete_pokemon sample_store ''1'') =
     json (Deleted deleted_message (sample 1 ''Bulbasaur'' ''Bulbizarre''))"
    "docs (snd (delete_pokemon sample_store ''1'')) =
     [sample 3 ''Venusaur'' ''Florizarre'', sample 0 ''Missingno'' ''Missingno'',
      sample 2 ''Ivysaur'' ''Herbizarre'']"
    by code_simp+
  from delete_by_id [of "''999''" sample_store] a b c
  have "delete_pokemon sample_store ''999'' = (status_json 404 (Error not_found), sample_store)"
    by blast
  moreover from delete_by_id [of "''abc''" sample_store] n
  have "snd (delete_pokemon sample_store ''abc'') = sample_store"
    by blast
  ultimately show ?thesis using e n by blast
qed

text \<open>
  C9 as stated fails: no record has the id \<^verbatim>\<open>abc\<close>, yet \<^verbatim>\<open>DELETE /pokemon/abc\<close> is
  answered 500, not 404.
\<close>

theorem delete_non_numeric_id:
  "Number ''abc'' = NaN \<and>
   fst (delete_pokemon sample_store ''abc'') = status_json 500 (Error ''Cast to Number failed'') \<and>
   status (fst (delete_pokemon sample_store ''abc'')) \<noteq> 404"
  by code_simp

end
